theory Spec2Isabelle
  imports Complex_Main "HOL-Library.Multiset"
begin

section \<open>ROC AUC of \<^verbatim>\<open>monai/metrics/rocauc.py\<close>\<close>

text \<open>
  The module has two functions: \<^verbatim>\<open>_calculate\<close>, the pairwise rank comparison of one
  binary label/score pair, and \<^verbatim>\<open>compute_roc_auc\<close>, the public entry that validates
  its arguments, normalises shapes, applies the optional transforms and aggregates the
  per-class values.

  Scores and labels are tensor elements; they are modelled as real numbers, so rounding and
  the special values of floating point are outside the model, with one exception: the
  result of \<^verbatim>\<open>np.mean\<close> on an empty list, which is the value nan, is a result of its own.
  Every \<^verbatim>\<open>raise\<close> of the source, and every exception its operations raise on the way,
  is a value of the type \<open>error\<close>; a call returns \<open>Inl\<close> of the error or \<open>Inr\<close> of its
  result. The advisory \<^verbatim>\<open>warnings.warn\<close> calls of the single-channel branch do not change
  the result and are left out.
\<close>

subsection \<open>Errors and results\<close>

datatype error =
    ValueError string
  | ZeroDivisionError
  | IndexError
  | TypeError
  | RuntimeError

text \<open>
  What \<^verbatim>\<open>compute_roc_auc\<close> returns: a number, the list \<^verbatim>\<open>auc_values\<close> when
  \<^verbatim>\<open>average is None\<close>, or nan (\<^verbatim>\<open>np.mean([])\<close>).
\<close>

datatype auc_result = Scalar real | PerClass "real list" | NaN

subsection \<open>The binary computation: \<^verbatim>\<open>_calculate\<close>\<close>

text \<open>
  Lines 18 to 25: the loop over \<^verbatim>\<open>enumerate(y)\<close>, with the running index and the two
  index lists as they are at the head of the loop. \<^verbatim>\<open>append\<close> adds at the end.
\<close>

fun label_loop :: "real list \<Rightarrow> nat \<Rightarrow> nat list \<Rightarrow> nat list \<Rightarrow> error + nat list \<times> nat list" where
  "label_loop [] index pos_indexes neg_indexes = Inr (pos_indexes, neg_indexes)"
| "label_loop (y_i # y) index pos_indexes neg_indexes =
     (if y_i = 1 then label_loop y (Suc index) (pos_indexes @ [index]) neg_indexes
      else if y_i = 0 then label_loop y (Suc index) pos_indexes (neg_indexes @ [index])
      else Inl (ValueError ''labels should be binary values.''))"

text \<open>Lines 27 to 33.\<close>

definition compare :: "real \<Rightarrow> real \<Rightarrow> real" where
  "compare a b = (if a > b then 1 else if a = b then 0.5 else 0)"

text \<open>\<^verbatim>\<open>y_pred[i]\<close> for an index that \<^verbatim>\<open>enumerate\<close> produced: out of range it raises.\<close>

definition getitem :: "real list \<Rightarrow> nat \<Rightarrow> error + real" where
  "getitem y_pred i = (if i < length y_pred then Inr (y_pred ! i) else Inl IndexError)"

text \<open>
  Line 34, the inner comprehension
  \<^verbatim>\<open>[compare(y_pred[i], y_pred[j]) for j in neg_indexes]\<close>: both subscripts are
  evaluated for every \<open>j\<close>, the first one that fails ends the call.
\<close>

fun inner_compares :: "real list \<Rightarrow> nat \<Rightarrow> nat list \<Rightarrow> error + real list" where
  "inner_compares y_pred i [] = Inr []"
| "inner_compares y_pred i (j # neg_indexes) =
     (case getitem y_pred i of
        Inl e \<Rightarrow> Inl e
      | Inr a \<Rightarrow>
          (case getitem y_pred j of
             Inl e \<Rightarrow> Inl e
           | Inr b \<Rightarrow>
               (case inner_compares y_pred i neg_indexes of
                  Inl e \<Rightarrow> Inl e
                | Inr cs \<Rightarrow> Inr (compare a b # cs))))"

text \<open>
  Line 34, the outer comprehension
  \<^verbatim>\<open>[sum([...]) for i in pos_indexes]\<close>.
\<close>

fun outer_sums :: "real list \<Rightarrow> nat list \<Rightarrow> nat list \<Rightarrow> error + real list" where
  "outer_sums y_pred [] neg_indexes = Inr []"
| "outer_sums y_pred (i # pos_indexes) neg_indexes =
     (case inner_compares y_pred i neg_indexes of
        Inl e \<Rightarrow> Inl e
      | Inr cs \<Rightarrow>
          (case outer_sums y_pred pos_indexes neg_indexes of
             Inl e \<Rightarrow> Inl e
           | Inr ss \<Rightarrow> Inr (sum_list cs # ss)))"

text \<open>
  \<^verbatim>\<open>_calculate(y, y_pred)\<close>. The division of line 36 is Python's: a zero divisor raises
  \<^verbatim>\<open>ZeroDivisionError\<close>, whatever the dividend.
\<close>

definition calculate :: "real list \<Rightarrow> real list \<Rightarrow> error + real" where
  "calculate y y_pred =
     (case label_loop y 0 [] [] of
        Inl e \<Rightarrow> Inl e
      | Inr (pos_indexes, neg_indexes) \<Rightarrow>
          (case outer_sums y_pred pos_indexes neg_indexes of
             Inl e \<Rightarrow> Inl e
           | Inr ss \<Rightarrow>
               (let auc = sum_list ss in
                if length pos_indexes * length neg_indexes = 0 then Inl ZeroDivisionError
                else Inr (auc / real (length pos_indexes * length neg_indexes)))))"

subsection \<open>Tensors\<close>

text \<open>
  A tensor as \<^verbatim>\<open>compute_roc_auc\<close> looks at it: its rank, for rank 2 its shape, and for
  ranks 1 and 2 its elements. A rank-2 tensor is its number of columns (\<^verbatim>\<open>shape[1]\<close>) and
  the list of its rows; the number of columns is kept apart because a tensor with no rows
  still has one. Other ranks are refused before their contents are read.
\<close>

datatype tensor =
    Tensor0
  | Tensor1 "real list"
  | Tensor2 nat "real list list"
  | TensorHigh nat

fun ndimension :: "tensor \<Rightarrow> nat" where
  "ndimension Tensor0 = 0"
| "ndimension (Tensor1 xs) = 1"
| "ndimension (Tensor2 c rows) = 2"
| "ndimension (TensorHigh k) = 3 + k"

text \<open>Every row of a rank-2 tensor has \<^verbatim>\<open>shape[1]\<close> elements.\<close>

fun well_shaped :: "tensor \<Rightarrow> bool" where
  "well_shaped (Tensor2 c rows) = list_all (\<lambda>r. length r = c) rows"
| "well_shaped t = True"

text \<open>
  Lines 76 to 81: a rank-2 tensor with one column is squeezed to rank 1
  (\<^verbatim>\<open>squeeze(dim=-1)\<close>); anything else is left as it is.
\<close>

fun squeeze_channel :: "tensor \<Rightarrow> tensor" where
  "squeeze_channel (Tensor2 c rows) = (if c = 1 then Tensor1 (concat rows) else Tensor2 c rows)"
| "squeeze_channel t = t"

text \<open>\<^verbatim>\<open>transpose(0, 1)\<close> of a rank-2 tensor with \<open>c\<close> columns: the list of its columns.\<close>

definition transpose01 :: "nat \<Rightarrow> real list list \<Rightarrow> real list list" where
  "transpose01 c rows = map (\<lambda>k. map (\<lambda>r. r ! k) rows) [0..<c]"

text \<open>The elementwise \<^verbatim>\<open>sigmoid\<close> and the row-wise \<^verbatim>\<open>softmax(dim=1)\<close> of the tensor library.\<close>

definition sigmoid :: "real \<Rightarrow> real" where
  "sigmoid x = 1 / (1 + exp (- x))"

fun sigmoid_tensor :: "tensor \<Rightarrow> tensor" where
  "sigmoid_tensor (Tensor1 xs) = Tensor1 (map sigmoid xs)"
| "sigmoid_tensor (Tensor2 c rows) = Tensor2 c (map (map sigmoid) rows)"
| "sigmoid_tensor t = t"

definition softmax :: "real list list \<Rightarrow> real list list" where
  "softmax rows = map (\<lambda>r. map (\<lambda>x. exp x / sum_list (map exp r)) r) rows"

text \<open>
  Lines 100 to 101, \<^verbatim>\<open>flat(x)\<close>: the elements of the rows of \<open>x\<close>, row after row. On a
  rank-1 tensor the inner \<^verbatim>\<open>for i in k\<close> iterates over an element, which raises; with no
  element there is nothing to iterate over.
\<close>

fun flat :: "tensor \<Rightarrow> error + real list" where
  "flat (Tensor2 c rows) = Inr (concat rows)"
| "flat (Tensor1 xs) = (if xs = [] then Inr [] else Inl TypeError)"
| "flat t = Inl TypeError"

subsection \<open>The aggregation\<close>

text \<open>
  Line 105: \<^verbatim>\<open>[_calculate(y_, y_pred_) for y_, y_pred_ in zip(y, y_pred)]\<close>, class after
  class; the first call that fails ends the list.
\<close>

fun auc_values_of :: "(real list \<times> real list) list \<Rightarrow> error + real list" where
  "auc_values_of [] = Inr []"
| "auc_values_of ((y_c, y_pred_c) # rest) =
     (case calculate y_c y_pred_c of
        Inl e \<Rightarrow> Inl e
      | Inr v \<Rightarrow>
          (case auc_values_of rest of
             Inl e \<Rightarrow> Inl e
           | Inr vs \<Rightarrow> Inr (v # vs)))"

text \<open>\<^verbatim>\<open>np.mean\<close> of a list: nan when the list is empty.\<close>

definition np_mean :: "real list \<Rightarrow> auc_result" where
  "np_mean xs = (if xs = [] then NaN else Scalar (sum_list xs / real (length xs)))"

text \<open>
  \<^verbatim>\<open>np.average(a, weights=w)\<close>: it refuses weights of another length than \<open>a\<close> and weights
  whose sum is zero.
\<close>

definition np_average :: "real list \<Rightarrow> real list \<Rightarrow> error + auc_result" where
  "np_average a w =
     (if length a \<noteq> length w then Inl TypeError
      else if sum_list w = 0 then Inl ZeroDivisionError
      else Inr (Scalar (sum_list (map2 times a w) / sum_list w)))"

text \<open>
  Line 91 when \<open>y\<close> was not squeezed to rank 1: the loop of \<^verbatim>\<open>_calculate\<close> then takes a
  whole row for \<^verbatim>\<open>y_\<close>, and the truth value of \<^verbatim>\<open>y_ == 1\<close> is refused by the tensor
  library (such a row has no element or several); with no row the loop body never runs.
\<close>

fun calculate_tensor :: "tensor \<Rightarrow> real list \<Rightarrow> error + real" where
  "calculate_tensor (Tensor1 y) y_pred = calculate y y_pred"
| "calculate_tensor (Tensor2 c rows) y_pred =
     (if rows = [] then calculate [] y_pred else Inl RuntimeError)"
| "calculate_tensor t y_pred = Inl TypeError"

subsection \<open>\<^verbatim>\<open>compute_roc_auc\<close>\<close>

text \<open>
  The one-hot encoder \<^verbatim>\<open>monai.networks.utils.one_hot\<close> is imported from another module:
  it is the parameter \<open>one_hot\<close>, which gives the columns and rows of the encoded labels
  or fails. \<^verbatim>\<open>average\<close> is \<^verbatim>\<open>None\<close> or a string.
\<close>

type_synonym encoder = "tensor \<Rightarrow> nat \<Rightarrow> error + nat \<times> real list list"

text \<open>
  Lines 104 to 113, the branch of the averages other than \<^verbatim>\<open>'micro'\<close>, for a label tensor
  of rank 2 with \<open>cy\<close> columns and rows \<open>Y\<close> and a score tensor with \<open>n_classes\<close> columns and
  rows \<open>P\<close>. \<^verbatim>\<open>zip\<close> stops at the shorter of its two arguments.
\<close>

definition aggregate :: "real list list \<Rightarrow> nat \<Rightarrow> real list list \<Rightarrow> nat \<Rightarrow> string option \<Rightarrow> error + auc_result" where
  "aggregate Y cy P n_classes average =
     (let y = transpose01 cy Y; y_pred = transpose01 n_classes P in
      case auc_values_of (zip y y_pred) of
        Inl e \<Rightarrow> Inl e
      | Inr auc_values \<Rightarrow>
          if average = None then Inr (PerClass auc_values)
          else if average = Some ''macro'' then Inr (np_mean auc_values)
          else if average = Some ''weighted'' then
            (let weights = map sum_list y in np_average auc_values weights)
          else Inl (ValueError ''unsupported average method.''))"

text \<open>
  \<^verbatim>\<open>compute_roc_auc(y_pred, y, to_onehot_y, add_softmax, add_sigmoid, average)\<close>. A label
  tensor that is still of rank 1 when the scores are of rank 2 has no second dimension to
  transpose: \<^verbatim>\<open>y.transpose(0, 1)\<close> raises.
\<close>

definition compute_roc_auc ::
  "encoder \<Rightarrow> tensor \<Rightarrow> tensor \<Rightarrow> bool \<Rightarrow> bool \<Rightarrow> bool \<Rightarrow> string option \<Rightarrow> error + auc_result" where
  "compute_roc_auc one_hot y_pred y to_onehot_y add_softmax add_sigmoid average =
     (if add_softmax \<and> add_sigmoid then
        Inl (ValueError ''add_softmax=True and add_sigmoid=True are not compatible.'')
      else if ndimension y_pred \<notin> {1, 2} then
        Inl (ValueError ''predictions should be of shape (batch_size, n_classes) or (batch_size, ).'')
      else if ndimension y \<notin> {1, 2} then
        Inl (ValueError ''targets should be of shape (batch_size, n_classes) or (batch_size, ).'')
      else
        (let y_pred = squeeze_channel y_pred;
             y = squeeze_channel y;
             y_pred = (if add_sigmoid then sigmoid_tensor y_pred else y_pred)
         in case y_pred of
              Tensor1 p \<Rightarrow> map_sum id Scalar (calculate_tensor y p)
            | Tensor2 n_classes P \<Rightarrow>
                (case (if to_onehot_y then map_sum id (\<lambda>(c, rows). Tensor2 c rows) (one_hot y n_classes)
                       else Inr y) of
                   Inl e \<Rightarrow> Inl e
                 | Inr y \<Rightarrow>
                     (let P = (if add_softmax then softmax P else P) in
                      if average = Some ''micro'' then
                        (case flat y of
                           Inl e \<Rightarrow> Inl e
                         | Inr fy \<Rightarrow> map_sum id Scalar (calculate fy (concat P)))
                      else
                        (case y of
                           Tensor2 cy Y \<Rightarrow> aggregate Y cy P n_classes average
                         | _ \<Rightarrow> Inl IndexError)))
            | _ \<Rightarrow> Inl TypeError))"

subsection \<open>The errors the source raises itself\<close>

text \<open>
  The source has five \<^verbatim>\<open>raise\<close> statements (lines 25, 68, 73, 75 and 113), each a
  \<^verbatim>\<open>ValueError\<close> with a message that says what was wrong. Every other error comes out
  of an operation the source performs (the division of line 36, a subscript, an iteration,
  a truth value); the source has no statement and no message for it.
\<close>

fun raised_by_source :: "error \<Rightarrow> bool" where
  "raised_by_source (ValueError m) =
     (m \<in> set [''labels should be binary values.'',
               ''add_softmax=True and add_sigmoid=True are not compatible.'',
               ''predictions should be of shape (batch_size, n_classes) or (batch_size, ).'',
               ''targets should be of shape (batch_size, n_classes) or (batch_size, ).'',
               ''unsupported average method.''])"
| "raised_by_source ZeroDivisionError = False"
| "raised_by_source IndexError = False"
| "raised_by_source TypeError = False"
| "raised_by_source RuntimeError = False"

subsection \<open>Counting the calls of \<^verbatim>\<open>compare\<close>\<close>

text \<open>
  How many times a call runs \<^verbatim>\<open>compare\<close> before it returns or raises. Each function
  below follows the function of the same name above, branch by branch, and counts where
  that one compares.
\<close>

fun inner_compares_count :: "real list \<Rightarrow> nat \<Rightarrow> nat list \<Rightarrow> nat" where
  "inner_compares_count y_pred i [] = 0"
| "inner_compares_count y_pred i (j # neg_indexes) =
     (case getitem y_pred i of
        Inl e \<Rightarrow> 0
      | Inr a \<Rightarrow>
          (case getitem y_pred j of
             Inl e \<Rightarrow> 0
           | Inr b \<Rightarrow> Suc (inner_compares_count y_pred i neg_indexes)))"

fun outer_sums_count :: "real list \<Rightarrow> nat list \<Rightarrow> nat list \<Rightarrow> nat" where
  "outer_sums_count y_pred [] neg_indexes = 0"
| "outer_sums_count y_pred (i # pos_indexes) neg_indexes =
     inner_compares_count y_pred i neg_indexes +
     (case inner_compares y_pred i neg_indexes of
        Inl e \<Rightarrow> 0
      | Inr cs \<Rightarrow> outer_sums_count y_pred pos_indexes neg_indexes)"

definition calculate_count :: "real list \<Rightarrow> real list \<Rightarrow> nat" where
  "calculate_count y y_pred =
     (case label_loop y 0 [] [] of
        Inl e \<Rightarrow> 0
      | Inr (pos_indexes, neg_indexes) \<Rightarrow> outer_sums_count y_pred pos_indexes neg_indexes)"

fun calculate_tensor_count :: "tensor \<Rightarrow> real list \<Rightarrow> nat" where
  "calculate_tensor_count (Tensor1 y) y_pred = calculate_count y y_pred"
| "calculate_tensor_count (Tensor2 c rows) y_pred =
     (if rows = [] then calculate_count [] y_pred else 0)"
| "calculate_tensor_count t y_pred = 0"

fun auc_values_count :: "(real list \<times> real list) list \<Rightarrow> nat" where
  "auc_values_count [] = 0"
| "auc_values_count ((y_c, y_pred_c) # rest) =
     calculate_count y_c y_pred_c +
     (case calculate y_c y_pred_c of
        Inl e \<Rightarrow> 0
      | Inr v \<Rightarrow> auc_values_count rest)"

definition compute_roc_auc_count ::
  "encoder \<Rightarrow> tensor \<Rightarrow> tensor \<Rightarrow> bool \<Rightarrow> bool \<Rightarrow> bool \<Rightarrow> string option \<Rightarrow> nat" where
  "compute_roc_auc_count one_hot y_pred y to_onehot_y add_softmax add_sigmoid average =
     (if add_softmax \<and> add_sigmoid then 0
      else if ndimension y_pred \<notin> {1, 2} then 0
      else if ndimension y \<notin> {1, 2} then 0
      else
        (let y_pred = squeeze_channel y_pred;
             y = squeeze_channel y;
             y_pred = (if add_sigmoid then sigmoid_tensor y_pred else y_pred)
         in case y_pred of
              Tensor1 p \<Rightarrow> calculate_tensor_count y p
            | Tensor2 n_classes P \<Rightarrow>
                (case (if to_onehot_y then map_sum id (\<lambda>(c, rows). Tensor2 c rows) (one_hot y n_classes)
                       else Inr y) of
                   Inl e \<Rightarrow> 0
                 | Inr y \<Rightarrow>
                     (let P = (if add_softmax then softmax P else P) in
                      if average = Some ''micro'' then
                        (case flat y of
                           Inl e \<Rightarrow> 0
                         | Inr fy \<Rightarrow> calculate_count fy (concat P))
                      else
                        (case y of
                           Tensor2 cy Y \<Rightarrow>
                             auc_values_count (zip (transpose01 cy Y) (transpose01 n_classes P))
                         | _ \<Rightarrow> 0)))
            | _ \<Rightarrow> 0))"

subsection \<open>What the specification says\<close>

text \<open>
  The specification's BinaryAUC, in its words: \<open>pos\<close> and \<open>neg\<close> are the sets of the indices
  with label 1 and with label 0, the comparator of a pair is 1, one half or 0, and the
  result is the sum of the comparator over all pairs divided by \<open>|pos| * |neg|\<close>.
\<close>

definition spec_pos :: "real list \<Rightarrow> nat set" where
  "spec_pos labels = {i. i < length labels \<and> labels ! i = 1}"

definition spec_neg :: "real list \<Rightarrow> nat set" where
  "spec_neg labels = {i. i < length labels \<and> labels ! i = 0}"

definition spec_comparator :: "real \<Rightarrow> real \<Rightarrow> real" where
  "spec_comparator si sj = (if si > sj then 1 else if si = sj then 1 / 2 else 0)"

definition spec_binary_auc :: "real list \<Rightarrow> real list \<Rightarrow> real" where
  "spec_binary_auc labels score =
     (\<Sum>(i, j) \<in> spec_pos labels \<times> spec_neg labels. spec_comparator (score ! i) (score ! j))
       / real (card (spec_pos labels) * card (spec_neg labels))"

text \<open>Swapping the two labels; any other value stays.\<close>

definition complement :: "real \<Rightarrow> real" where
  "complement l = (if l = 0 then 1 else if l = 1 then 0 else l)"

text \<open>Column \<open>k\<close> of a matrix given by its rows.\<close>

definition column :: "nat \<Rightarrow> real list list \<Rightarrow> real list" where
  "column k rows = map (\<lambda>r. r ! k) rows"

subsection \<open>What the class branch works on\<close>

text \<open>
  The score rows after lines 83 to 84 and 96 to 97 (at most one of the two transforms is
  applied, since both together are refused), and the label tensor after lines 79 to 81 and
  94 to 95, for a score tensor of rank 2 with \<open>n_classes\<close> columns.
\<close>

definition scores_seen :: "bool \<Rightarrow> bool \<Rightarrow> real list list \<Rightarrow> real list list" where
  "scores_seen add_softmax add_sigmoid P =
     (let P = (if add_sigmoid then map (map sigmoid) P else P)
      in if add_softmax then softmax P else P)"

definition labels_seen :: "encoder \<Rightarrow> tensor \<Rightarrow> bool \<Rightarrow> nat \<Rightarrow> error + tensor" where
  "labels_seen one_hot y to_onehot_y n_classes =
     (if to_onehot_y
      then map_sum id (\<lambda>(c, rows). Tensor2 c rows) (one_hot (squeeze_channel y) n_classes)
      else Inr (squeeze_channel y))"

text \<open>
  Every one of the \<open>c\<close> class columns of a label matrix holds only 0 and 1, and at least
  one of each.
\<close>

definition classes_defined :: "nat \<Rightarrow> real list list \<Rightarrow> bool" where
  "classes_defined c Y =
     (\<forall>k<c. set (column k Y) \<subseteq> {0, 1} \<and> 1 \<in> set (column k Y) \<and> 0 \<in> set (column k Y))"

text \<open>A returned result all of whose numbers lie between 0 and 1; nan does not.\<close>

fun in_unit_interval :: "auc_result \<Rightarrow> bool" where
  "in_unit_interval (Scalar v) = (0 \<le> v \<and> v \<le> 1)"
| "in_unit_interval (PerClass vs) = list_all (\<lambda>v. 0 \<le> v \<and> v \<le> 1) vs"
| "in_unit_interval NaN = False"

subsection \<open>The index lists and the sum of line 34\<close>

text \<open>
  The two lists that the loop of \<^verbatim>\<open>_calculate\<close> builds on binary labels, and the double
  sum of line 34 over two index lists.
\<close>

definition pos_of :: "real list \<Rightarrow> nat list" where
  "pos_of y = filter (\<lambda>i. y ! i = 1) [0..<length y]"

definition neg_of :: "real list \<Rightarrow> nat list" where
  "neg_of y = filter (\<lambda>i. y ! i = 0) [0..<length y]"

definition pair_sum :: "real list \<Rightarrow> nat list \<Rightarrow> nat list \<Rightarrow> real" where
  "pair_sum p is js = sum_list (map (\<lambda>i. sum_list (map (\<lambda>j. compare (p ! i) (p ! j)) js)) is)"

text \<open>
  The scores of the samples with label \<open>l\<close>, in order, and the double sum of line 34 over
  two lists of scores.
\<close>

definition scores_with :: "real \<Rightarrow> real list \<Rightarrow> real list \<Rightarrow> real list" where
  "scores_with l y p = map snd (filter (\<lambda>x. fst x = l) (zip y p))"

definition score_sum :: "real list \<Rightarrow> real list \<Rightarrow> real" where
  "score_sum as bs = sum_list (map (\<lambda>a. sum_list (map (compare a) bs)) as)"


section \<open>Properties of \<^verbatim>\<open>_calculate\<close>\<close>

lemma upt_shift: "[0..<Suc n] = 0 # map Suc [0..<n]"
  by (simp add: upt_conv_Cons map_Suc_upt del: upt_Suc)

lemma label_loop_binary:
  "\<forall>l\<in>set y. l = 0 \<or> l = 1 \<Longrightarrow>
   label_loop y k ps ns =
     Inr (ps @ map (\<lambda>i. i + k) (pos_of y), ns @ map (\<lambda>i. i + k) (neg_of y))"
proof (induction y arbitrary: k ps ns)
  case Nil
  then show ?case by (simp add: pos_of_def neg_of_def)
next
  case (Cons l y)
  have IH: "\<And>k ps ns. label_loop y k ps ns =
     Inr (ps @ map (\<lambda>i. i + k) (pos_of y), ns @ map (\<lambda>i. i + k) (neg_of y))"
    using Cons by simp
  have l: "l = 0 \<or> l = 1" using Cons.prems by simp
  have p: "pos_of (l # y) = (if l = 1 then [0] else []) @ map Suc (pos_of y)"
    unfolding pos_of_def length_Cons upt_shift by (simp add: filter_map comp_def)
  have n: "neg_of (l # y) = (if l = 0 then [0] else []) @ map Suc (neg_of y)"
    unfolding neg_of_def length_Cons upt_shift by (simp add: filter_map comp_def)
  show ?case using l by (auto simp: IH p n)
qed

lemma label_loop_invalid:
  "\<exists>l\<in>set y. l \<noteq> 0 \<and> l \<noteq> 1 \<Longrightarrow>
   label_loop y k ps ns = Inl (ValueError ''labels should be binary values.'')"
  by (induction y arbitrary: k ps ns) auto

lemma label_loop_start:
  "label_loop y 0 [] [] =
     (if \<forall>l\<in>set y. l = 0 \<or> l = 1 then Inr (pos_of y, neg_of y)
      else Inl (ValueError ''labels should be binary values.''))"
  using label_loop_binary [of y 0 "[]" "[]"] label_loop_invalid [of y 0 "[]" "[]"]
  by auto

lemma inner_compares_ok:
  "i < length p \<Longrightarrow> \<forall>j\<in>set js. j < length p \<Longrightarrow>
   inner_compares p i js = Inr (map (\<lambda>j. compare (p ! i) (p ! j)) js)"
  by (induction js) (auto simp: getitem_def)

lemma outer_sums_ok:
  "\<forall>i\<in>set is. i < length p \<Longrightarrow> \<forall>j\<in>set js. j < length p \<Longrightarrow>
   outer_sums p is js = Inr (map (\<lambda>i. sum_list (map (\<lambda>j. compare (p ! i) (p ! j)) js)) is)"
  by (induction "is") (auto simp: inner_compares_ok)

lemma outer_sums_neg_empty: "outer_sums p is [] = Inr (map (\<lambda>i. 0) is)"
  by (induction "is") auto

lemma inner_compares_error: "inner_compares p i js = Inl e \<Longrightarrow> e = IndexError"
  by (induction js) (auto simp: getitem_def split: if_splits sum.splits)

lemma outer_sums_error: "outer_sums p is js = Inl e \<Longrightarrow> e = IndexError"
  by (induction "is") (auto split: sum.splits dest: inner_compares_error)

lemma inner_compares_InrD:
  "inner_compares p i js = Inr cs \<Longrightarrow> \<forall>j\<in>set js. i < length p \<and> j < length p"
  by (induction js arbitrary: cs) (auto simp: getitem_def split: if_splits sum.splits)

lemma outer_sums_InrD':
  "outer_sums p is js = Inr ss \<Longrightarrow> \<forall>i\<in>set is. \<forall>j\<in>set js. i < length p \<and> j < length p"
  by (induction "is" arbitrary: ss) (auto split: sum.splits dest: inner_compares_InrD)

lemma outer_sums_InrD:
  assumes "outer_sums p is js = Inr ss" "is \<noteq> []" "js \<noteq> []"
  shows "(\<forall>i\<in>set is. i < length p) \<and> (\<forall>j\<in>set js. j < length p)"
proof -
  obtain i0 j0 where "i0 \<in> set is" "j0 \<in> set js"
    using assms(2,3) by (meson last_in_set)
  then show ?thesis using outer_sums_InrD' [OF assms(1)] by blast
qed

lemma pos_neg_in_range: "i \<in> set (pos_of y) \<Longrightarrow> i < length y" "i \<in> set (neg_of y) \<Longrightarrow> i < length y"
  by (auto simp: pos_of_def neg_of_def)

lemma calculate_InrD:
  assumes "calculate y p = Inr v"
  shows "(\<forall>l\<in>set y. l = 0 \<or> l = 1) \<and> pos_of y \<noteq> [] \<and> neg_of y \<noteq> [] \<and>
         (\<forall>i\<in>set (pos_of y). i < length p) \<and> (\<forall>j\<in>set (neg_of y). j < length p) \<and>
         v = pair_sum p (pos_of y) (neg_of y) / real (length (pos_of y) * length (neg_of y))"
proof -
  have b: "\<forall>l\<in>set y. l = 0 \<or> l = 1"
    using assms by (auto simp: calculate_def label_loop_start split: if_splits)
  obtain ss where ss: "outer_sums p (pos_of y) (neg_of y) = Inr ss"
    and ne: "length (pos_of y) * length (neg_of y) \<noteq> 0"
    and v: "v = sum_list ss / real (length (pos_of y) * length (neg_of y))"
    using assms b by (auto simp: calculate_def label_loop_start Let_def split: sum.splits if_splits)
  have ne': "pos_of y \<noteq> []" "neg_of y \<noteq> []" using ne by auto
  have r: "(\<forall>i\<in>set (pos_of y). i < length p) \<and> (\<forall>j\<in>set (neg_of y). j < length p)"
    using outer_sums_InrD [OF ss ne'] .
  then have "ss = map (\<lambda>i. sum_list (map (\<lambda>j. compare (p ! i) (p ! j)) (neg_of y))) (pos_of y)"
    using ss outer_sums_ok [of "pos_of y" p "neg_of y"] by simp
  then show ?thesis using b ne' r v by (simp add: pair_sum_def)
qed

lemma calculate_InrI:
  assumes "\<forall>l\<in>set y. l = 0 \<or> l = 1" "pos_of y \<noteq> []" "neg_of y \<noteq> []"
    "\<forall>i\<in>set (pos_of y). i < length p" "\<forall>j\<in>set (neg_of y). j < length p"
  shows "calculate y p = Inr (pair_sum p (pos_of y) (neg_of y) / real (length (pos_of y) * length (neg_of y)))"
  using assms by (simp add: calculate_def label_loop_start outer_sums_ok pair_sum_def)

lemma calculate_undefined:
  assumes "\<forall>l\<in>set y. l = 0 \<or> l = 1" "pos_of y = [] \<or> neg_of y = []"
  shows "calculate y p = Inl ZeroDivisionError"
proof (cases "pos_of y = []")
  case True
  then show ?thesis using assms by (simp add: calculate_def label_loop_start)
next
  case False
  then have "neg_of y = []" using assms by simp
  then show ?thesis using assms by (simp add: calculate_def label_loop_start outer_sums_neg_empty)
qed

lemma pos_of_empty_iff: "pos_of y = [] \<longleftrightarrow> 1 \<notin> set y"
  by (auto simp: pos_of_def filter_empty_conv in_set_conv_nth)
lemma neg_of_empty_iff: "neg_of y = [] \<longleftrightarrow> 0 \<notin> set y"
  by (auto simp: neg_of_def filter_empty_conv in_set_conv_nth)

lemma set_pos_of: "set (pos_of y) = spec_pos y" by (auto simp: pos_of_def spec_pos_def)
lemma set_neg_of: "set (neg_of y) = spec_neg y" by (auto simp: neg_of_def spec_neg_def)
lemma distinct_pos_of: "distinct (pos_of y)" by (simp add: pos_of_def)
lemma distinct_neg_of: "distinct (neg_of y)" by (simp add: neg_of_def)
lemma length_pos_of: "length (pos_of y) = card (spec_pos y)"
  using distinct_card [OF distinct_pos_of, of y] by (simp add: set_pos_of)
lemma length_neg_of: "length (neg_of y) = card (spec_neg y)"
  using distinct_card [OF distinct_neg_of, of y] by (simp add: set_neg_of)

lemma compare_spec: "compare a b = spec_comparator a b"
  by (simp add: compare_def spec_comparator_def)

lemma pair_sum_spec:
  "pair_sum p (pos_of y) (neg_of y) =
     (\<Sum>(i, j) \<in> spec_pos y \<times> spec_neg y. spec_comparator (p ! i) (p ! j))"
  by (simp add: pair_sum_def sum_list_distinct_conv_sum_set distinct_pos_of distinct_neg_of
      set_pos_of set_neg_of compare_spec sum.cartesian_product)

lemma calculate_spec:
  assumes "set y \<subseteq> {0, 1}" "1 \<in> set y" "0 \<in> set y" "length p = length y"
  shows "calculate y p = Inr (spec_binary_auc y p)"
proof -
  have b: "\<forall>l\<in>set y. l = 0 \<or> l = 1" using assms(1) by auto
  have ne: "pos_of y \<noteq> []" "neg_of y \<noteq> []"
    using assms(2,3) by (simp_all add: pos_of_empty_iff neg_of_empty_iff)
  have r: "\<forall>i\<in>set (pos_of y). i < length p" "\<forall>j\<in>set (neg_of y). j < length p"
    using assms(4) pos_neg_in_range by auto
  show ?thesis
    unfolding calculate_InrI [OF b ne r] spec_binary_auc_def pair_sum_spec length_pos_of length_neg_of ..
qed

lemma compare_strict_mono: "strict_mono f \<Longrightarrow> compare (f a) (f b) = compare a b"
  by (simp add: compare_def strict_mono_less strict_mono_eq)

lemma inner_compares_map:
  "strict_mono f \<Longrightarrow> inner_compares (map f p) i js = inner_compares p i js"
  by (induction js) (auto simp: getitem_def compare_strict_mono split: sum.splits)

lemma outer_sums_map:
  "strict_mono f \<Longrightarrow> outer_sums (map f p) is js = outer_sums p is js"
  by (induction "is") (auto simp: inner_compares_map split: sum.splits)

lemma compare_swap: "compare a b + compare b a = 1"
  by (simp add: compare_def)

lemma compare_nonneg: "0 \<le> compare a b"
  by (simp add: compare_def)

lemma row_swap:
  "sum_list (map (\<lambda>j. compare a (p ! j)) js) + sum_list (map (\<lambda>j. compare (p ! j) a) js) = real (length js)"
  by (induction js) (auto simp: compare_def)

lemma pair_sum_Cons_right:
  "pair_sum p js (i # is) = sum_list (map (\<lambda>j. compare (p ! j) (p ! i)) js) + pair_sum p js is"
  by (simp add: pair_sum_def sum_list_addf)

lemma pair_sum_swap: "pair_sum p is js + pair_sum p js is = real (length is * length js)"
proof (induction "is")
  case Nil
  show ?case by (simp add: pair_sum_def)
next
  case (Cons i "is")
  have "pair_sum p (i # is) js = sum_list (map (\<lambda>j. compare (p ! i) (p ! j)) js) + pair_sum p is js"
    by (simp add: pair_sum_def)
  then show ?case
    using Cons row_swap [of "p ! i" p js] by (simp add: pair_sum_Cons_right algebra_simps)
qed

lemma pair_sum_nonneg: "0 \<le> pair_sum p is js"
  unfolding pair_sum_def by (intro sum_list_nonneg) (auto intro!: sum_list_nonneg compare_nonneg)

lemma pair_sum_le: "pair_sum p is js \<le> real (length is * length js)"
  using pair_sum_swap [of p "is" js] pair_sum_nonneg [of p js "is"] by linarith

lemma calculate_unit:
  assumes "calculate y p = Inr v"
  shows "0 \<le> v \<and> v \<le> 1"
proof -
  let ?n = "real (length (pos_of y) * length (neg_of y))"
  have v: "v = pair_sum p (pos_of y) (neg_of y) / ?n" and ne: "pos_of y \<noteq> []" "neg_of y \<noteq> []"
    using calculate_InrD [OF assms] by simp_all
  have n: "0 < ?n" using ne by simp
  show ?thesis
    unfolding v using pair_sum_nonneg [of p "pos_of y" "neg_of y"] pair_sum_le [of p "pos_of y" "neg_of y"] n
    by (simp add: divide_le_eq)
qed

lemma pos_of_complement:
  "\<forall>l\<in>set y. l = 0 \<or> l = 1 \<Longrightarrow> pos_of (map complement y) = neg_of y"
  unfolding pos_of_def neg_of_def
  by (rule filter_cong) (auto simp: complement_def dest: nth_mem)

lemma neg_of_complement:
  "\<forall>l\<in>set y. l = 0 \<or> l = 1 \<Longrightarrow> neg_of (map complement y) = pos_of y"
  unfolding pos_of_def neg_of_def
  by (rule filter_cong) (auto simp: complement_def dest: nth_mem)

lemma calculate_complement:
  assumes "calculate y p = Inr v"
  shows "calculate (map complement y) p = Inr (1 - v)"
proof -
  let ?ps = "pos_of y" and ?ns = "neg_of y"
  note d = calculate_InrD [OF assms]
  have b: "\<forall>l\<in>set y. l = 0 \<or> l = 1" using d by simp
  have b': "\<forall>l\<in>set (map complement y). l = 0 \<or> l = 1"
    using b by (auto simp: complement_def)
  have c: "calculate (map complement y) p = Inr (pair_sum p ?ns ?ps / real (length ?ns * length ?ps))"
    using calculate_InrI [OF b', of p] d by (simp add: pos_of_complement [OF b] neg_of_complement [OF b])
  have n: "real (length ?ps * length ?ns) \<noteq> 0" using d by simp
  have "pair_sum p ?ns ?ps = real (length ?ps * length ?ns) - pair_sum p ?ps ?ns"
    using pair_sum_swap [of p ?ps ?ns] by linarith
  then have "pair_sum p ?ns ?ps / real (length ?ns * length ?ps) = 1 - v"
    using d n by (simp add: diff_divide_distrib mult.commute)
  then show ?thesis using c by simp
qed

section \<open>Properties of the aggregation\<close>

lemma auc_values_of_InrD:
  "auc_values_of zs = Inr vs \<Longrightarrow> list_all2 (\<lambda>z v. calculate (fst z) (snd z) = Inr v) zs vs"
  by (induction zs arbitrary: vs) (auto split: sum.splits)

lemma auc_values_of_InrI:
  "list_all2 (\<lambda>z v. calculate (fst z) (snd z) = Inr v) zs vs \<Longrightarrow> auc_values_of zs = Inr vs"
  by (induction zs vs rule: list_all2_induct) auto

lemma auc_values_unit:
  assumes "auc_values_of zs = Inr vs"
  shows "\<forall>v\<in>set vs. 0 \<le> v \<and> v \<le> 1"
proof
  fix v assume "v \<in> set vs"
  then obtain i where i: "i < length vs" "vs ! i = v" by (auto simp: in_set_conv_nth)
  have "calculate (fst (zs ! i)) (snd (zs ! i)) = Inr (vs ! i)"
    using auc_values_of_InrD [OF assms] i(1) by (auto simp: list_all2_conv_all_nth)
  then show "0 \<le> v \<and> v \<le> 1" using calculate_unit i(2) by blast
qed

lemma sum_list_le_length: "\<forall>x\<in>set xs. x \<le> (1::real) \<Longrightarrow> sum_list xs \<le> real (length xs)"
  by (induction xs) auto

lemma np_mean_unit:
  assumes "\<forall>v\<in>set vs. 0 \<le> v \<and> v \<le> 1" "vs \<noteq> []"
  shows "in_unit_interval (np_mean vs)"
proof -
  have "0 \<le> sum_list vs" using assms(1) by (simp add: sum_list_nonneg)
  moreover have "sum_list vs \<le> real (length vs)" using assms(1) by (simp add: sum_list_le_length)
  moreover have "0 < real (length vs)" using assms(2) by simp
  ultimately have "0 \<le> sum_list vs / real (length vs)" "sum_list vs / real (length vs) \<le> 1"
    by (simp_all add: pos_divide_le_eq)
  then show ?thesis using assms(2) by (simp add: np_mean_def)
qed

lemma weighted_sum_bounds:
  "length a = length w \<Longrightarrow> \<forall>v\<in>set a. 0 \<le> v \<and> v \<le> (1::real) \<Longrightarrow> \<forall>x\<in>set w. 0 \<le> x \<Longrightarrow>
   0 \<le> sum_list (map2 times a w) \<and> sum_list (map2 times a w) \<le> sum_list w"
proof (induction a w rule: list_induct2)
  case Nil
  then show ?case by simp
next
  case (Cons v a x w)
  have "0 \<le> v * x" "v * x \<le> x" using Cons.prems by (simp_all add: mult_left_le_one_le)
  then show ?case using Cons by fastforce
qed

lemma np_average_unit:
  assumes "np_average a w = Inr r" "\<forall>v\<in>set a. 0 \<le> v \<and> v \<le> 1" "\<forall>x\<in>set w. 0 \<le> x"
  shows "in_unit_interval r"
proof -
  have l: "length a = length w" and s: "sum_list w \<noteq> 0"
    and r: "r = Scalar (sum_list (map2 times a w) / sum_list w)"
    using assms(1) by (auto simp: np_average_def split: if_splits)
  have "0 \<le> sum_list w" using assms(3) by (simp add: sum_list_nonneg)
  then have "0 < sum_list w" using s by simp
  then show ?thesis
    using weighted_sum_bounds [OF l assms(2,3)] by (simp add: r divide_le_eq)
qed

lemma binary_sum_nonneg: "\<forall>l\<in>set y. l = 0 \<or> l = (1::real) \<Longrightarrow> 0 \<le> sum_list y"
  by (induction y) auto

lemma aggregate_unit:
  assumes "aggregate Y cy P n average = Inr r"
  shows "in_unit_interval r \<or>
         (r = NaN \<and> average = Some ''macro'' \<and> aggregate Y cy P n None = Inr (PerClass []))"
proof -
  let ?y = "transpose01 cy Y" and ?p = "transpose01 n P"
  obtain vs where vs: "auc_values_of (zip ?y ?p) = Inr vs"
    using assms by (auto simp: aggregate_def Let_def split: sum.splits)
  note u = auc_values_unit [OF vs]
  consider (none) "average = None" | (macro) "average = Some ''macro''"
    | (weighted) "average \<noteq> None" "average \<noteq> Some ''macro''" "average = Some ''weighted''"
    using assms vs by (auto simp: aggregate_def Let_def split: if_splits)
  then show ?thesis
  proof cases
    case none
    then have "r = PerClass vs" using assms vs by (simp add: aggregate_def Let_def)
    then show ?thesis using u by (simp add: list_all_iff)
  next
    case macro
    then have r: "r = np_mean vs" using assms vs by (simp add: aggregate_def Let_def)
    show ?thesis
    proof (cases "vs = []")
      case True
      then show ?thesis using r macro vs by (simp add: np_mean_def aggregate_def Let_def)
    next
      case False
      then show ?thesis using np_mean_unit [OF u] r by simp
    qed
  next
    case weighted
    then have r: "np_average vs (map sum_list ?y) = Inr r"
      using assms vs by (simp add: aggregate_def Let_def)
    then have l: "length vs = length ?y" by (auto simp: np_average_def split: if_splits)
    have la: "list_all2 (\<lambda>z v. calculate (fst z) (snd z) = Inr v) (zip ?y ?p) vs"
      using auc_values_of_InrD [OF vs] .
    have lz: "length (zip ?y ?p) = length ?y"
      using list_all2_lengthD [OF la] l by simp
    have "0 \<le> sum_list yc" if yc: "yc \<in> set ?y" for yc
    proof -
      obtain i where i: "i < length ?y" "?y ! i = yc" using yc unfolding in_set_conv_nth by blast
      have "i < length (zip ?y ?p)" using i(1) lz by simp
      then have "calculate (fst (zip ?y ?p ! i)) (snd (zip ?y ?p ! i)) = Inr (vs ! i)"
        using la by (auto simp: list_all2_conv_all_nth)
      moreover have "fst (zip ?y ?p ! i) = yc" using i lz by simp
      ultimately have "\<forall>l\<in>set yc. l = 0 \<or> l = 1" using calculate_InrD by blast
      then show ?thesis by (rule binary_sum_nonneg)
    qed
    then have "\<forall>x\<in>set (map sum_list ?y). 0 \<le> x" by auto
    then show ?thesis using np_average_unit [OF r u] by simp
  qed
qed

lemma calculate_tensor_unit: "calculate_tensor y p = Inr v \<Longrightarrow> 0 \<le> v \<and> v \<le> 1"
  by (cases y) (auto dest: calculate_unit split: if_splits)

lemma compute_roc_auc_rank2:
  assumes "\<not> (add_softmax \<and> add_sigmoid)" "ndimension y \<in> {1, 2}" "c \<noteq> 1"
  shows "compute_roc_auc one_hot (Tensor2 c P) y to_onehot_y add_softmax add_sigmoid average =
     (case labels_seen one_hot y to_onehot_y c of
        Inl e \<Rightarrow> Inl e
      | Inr y' \<Rightarrow>
          if average = Some ''micro'' then
            (case flat y' of
               Inl e \<Rightarrow> Inl e
             | Inr fy \<Rightarrow>
                 map_sum id Scalar (calculate fy (concat (scores_seen add_softmax add_sigmoid P))))
          else
            (case y' of
               Tensor2 cy Y \<Rightarrow> aggregate Y cy (scores_seen add_softmax add_sigmoid P) c average
             | _ \<Rightarrow> Inl IndexError))"
  using assms
  by (cases add_softmax; cases add_sigmoid)
     (simp_all add: compute_roc_auc_def labels_seen_def scores_seen_def Let_def
        cong: sum.case_cong tensor.case_cong if_cong)

lemma compute_roc_auc_rank1:
  assumes "\<not> (add_softmax \<and> add_sigmoid)" "ndimension y \<in> {1, 2}"
  shows "compute_roc_auc one_hot (Tensor1 p) y to_onehot_y add_softmax add_sigmoid average =
     map_sum id Scalar (calculate_tensor (squeeze_channel y) (if add_sigmoid then map sigmoid p else p))"
  using assms
  by (cases add_softmax; cases add_sigmoid) (simp_all add: compute_roc_auc_def Let_def)

lemma compute_roc_auc_squeezed:
  "compute_roc_auc one_hot (Tensor2 1 P) y to_onehot_y add_softmax add_sigmoid average =
   compute_roc_auc one_hot (Tensor1 (concat P)) y to_onehot_y add_softmax add_sigmoid average"
  by (simp add: compute_roc_auc_def Let_def)

lemma compute_roc_auc_InrD:
  assumes "compute_roc_auc one_hot y_pred y to_onehot_y add_softmax add_sigmoid average = Inr r"
  shows "\<not> (add_softmax \<and> add_sigmoid) \<and> ndimension y \<in> {1, 2} \<and> ndimension y_pred \<in> {1, 2}"
  using assms by (auto simp: compute_roc_auc_def split: if_splits)

lemma map_sum_Scalar_InrD: "map_sum id Scalar x = Inr r \<Longrightarrow> \<exists>v. x = Inr v \<and> r = Scalar v"
  by (cases x) auto

lemma compute_roc_auc_rank1_unit:
  assumes "compute_roc_auc one_hot (Tensor1 p) y to_onehot_y add_softmax add_sigmoid average = Inr r"
  shows "in_unit_interval r"
proof -
  note d = compute_roc_auc_InrD [OF assms]
  obtain v where "calculate_tensor (squeeze_channel y) (if add_sigmoid then map sigmoid p else p) = Inr v"
    "r = Scalar v"
    using assms map_sum_Scalar_InrD unfolding compute_roc_auc_rank1 [of add_softmax add_sigmoid y, OF conjunct1 [OF d] conjunct1 [OF conjunct2 [OF d]]]
    by blast
  then show ?thesis using calculate_tensor_unit by auto
qed

lemma compute_roc_auc_unit:
  assumes "compute_roc_auc one_hot y_pred y to_onehot_y add_softmax add_sigmoid average = Inr r"
  shows "in_unit_interval r \<or>
         (r = NaN \<and> average = Some ''macro'' \<and>
          compute_roc_auc one_hot y_pred y to_onehot_y add_softmax add_sigmoid None = Inr (PerClass []))"
proof -
  note d = compute_roc_auc_InrD [OF assms]
  have f: "\<not> (add_softmax \<and> add_sigmoid)" "ndimension y \<in> {1, 2}" using d by simp_all
  show ?thesis
  proof (cases y_pred)
    case (Tensor1 p)
    then show ?thesis using assms compute_roc_auc_rank1_unit by blast
  next
    case (Tensor2 c P)
    show ?thesis
    proof (cases "c = 1")
      case True
      then show ?thesis
        using assms compute_roc_auc_rank1_unit
        unfolding Tensor2 True compute_roc_auc_squeezed
        by blast
    next
      case False
      let ?P = "scores_seen add_softmax add_sigmoid P"
      note unf = compute_roc_auc_rank2 [OF f False, of one_hot P to_onehot_y]
      obtain y' where y': "labels_seen one_hot y to_onehot_y c = Inr y'"
        using assms unfolding Tensor2 unf by (cases "labels_seen one_hot y to_onehot_y c") auto
      show ?thesis
      proof (cases "average = Some ''micro''")
        case True
        have "(case flat y' of Inl e \<Rightarrow> Inl e
               | Inr fy \<Rightarrow> map_sum id Scalar (calculate fy (concat ?P))) = Inr r"
          using assms unfolding Tensor2 unf by (simp add: y' True)
        then obtain fy where "map_sum id Scalar (calculate fy (concat ?P)) = Inr r"
          by (cases "flat y'") auto
        then obtain v where "calculate fy (concat ?P) = Inr v" "r = Scalar v"
          using map_sum_Scalar_InrD by blast
        then show ?thesis using calculate_unit by auto
      next
        case False
        have *: "(case y' of Tensor2 cy Y \<Rightarrow> aggregate Y cy ?P c avg | _ \<Rightarrow> Inl IndexError)
            = compute_roc_auc one_hot y_pred y to_onehot_y add_softmax add_sigmoid avg"
          if "avg \<noteq> Some ''micro''" for avg
          unfolding Tensor2 unf using that by (simp add: y')
        obtain cy Y where Y: "y' = Tensor2 cy Y"
          using assms * [OF False] by (cases y') auto
        have "aggregate Y cy ?P c average = Inr r"
          using assms * [OF False] by (simp add: Y)
        moreover have "compute_roc_auc one_hot y_pred y to_onehot_y add_softmax add_sigmoid None
              = aggregate Y cy ?P c None"
          using * [of None] by (simp add: Y)
        ultimately show ?thesis using aggregate_unit by auto
      qed
    qed
  qed (use d in auto)
qed

lemma transpose01_columns: "transpose01 c M = map (\<lambda>k. column k M) [0..<c]"
  by (simp add: transpose01_def column_def)

lemma length_column: "length (column k M) = length M"
  by (simp add: column_def)

lemma length_scores_seen: "length (scores_seen a b P) = length P"
  by (simp add: scores_seen_def softmax_def Let_def)

lemma auc_values_of_map:
  "\<forall>k\<in>set ks. calculate (f k) (g k) = Inr (a k) \<Longrightarrow>
   auc_values_of (map (\<lambda>k. (f k, g k)) ks) = Inr (map a ks)"
  by (induction ks) auto

lemma zip_columns:
  "zip (transpose01 c Y) (transpose01 c P) = map (\<lambda>k. (column k Y, column k P)) [0..<c]"
  by (simp add: transpose01_columns zip_map_map zip_same_conv_map)

lemma binary_sum_pos:
  "set y \<subseteq> {0, 1 :: real} \<Longrightarrow> 1 \<in> set y \<Longrightarrow> 1 \<le> sum_list y"
proof (induction y)
  case Nil
  then show ?case by simp
next
  case (Cons l y)
  have b: "\<forall>x\<in>set y. x = 0 \<or> x = 1" using Cons.prems(1) by auto
  show ?case
  proof (cases "1 \<in> set y")
    case True
    then have "1 \<le> sum_list y" using Cons by simp
    moreover have "0 \<le> l" using Cons.prems(1) by auto
    ultimately show ?thesis by simp
  next
    case False
    then have "l = 1" using Cons.prems(2) by simp
    then show ?thesis using binary_sum_nonneg [OF b] by simp
  qed
qed

lemma sum_list_ge_length:
  "\<forall>k\<in>set ks. (1::real) \<le> w k \<Longrightarrow> real (length ks) \<le> sum_list (map w ks)"
  by (induction ks) auto

lemma sum_list_upt: "sum_list (map f [0..<c]) = (\<Sum>k<c. f k)"
  by (simp add: interv_sum_list_conv_sum_set_nat lessThan_atLeast0)

lemma class_auc_values:
  assumes "classes_defined c Y" "length Y = length P"
  shows "auc_values_of (zip (transpose01 c Y) (transpose01 c P)) =
           Inr (map (\<lambda>k. spec_binary_auc (column k Y) (column k P)) [0..<c])"
    and "\<forall>k<c. calculate (column k Y) (column k P) = Inr (spec_binary_auc (column k Y) (column k P))"
proof -
  show *: "\<forall>k<c. calculate (column k Y) (column k P) = Inr (spec_binary_auc (column k Y) (column k P))"
    using assms by (auto simp: classes_defined_def length_column intro!: calculate_spec)
  show "auc_values_of (zip (transpose01 c Y) (transpose01 c P)) =
           Inr (map (\<lambda>k. spec_binary_auc (column k Y) (column k P)) [0..<c])"
    unfolding zip_columns using * by (intro auc_values_of_map) simp
qed

lemma aggregate_weighted:
  assumes "classes_defined c Y" "length Y = length P" "c \<noteq> 0"
  shows "aggregate Y c P c (Some ''weighted'') =
     Inr (Scalar ((\<Sum>k<c. spec_binary_auc (column k Y) (column k P) * sum_list (column k Y))
                   / (\<Sum>k<c. sum_list (column k Y))))"
proof -
  let ?a = "\<lambda>k. spec_binary_auc (column k Y) (column k P)"
  let ?w = "\<lambda>k. sum_list (column k Y)"
  have w: "map sum_list (transpose01 c Y) = map ?w [0..<c]"
    by (simp add: transpose01_columns comp_def)
  have "\<forall>k\<in>set [0..<c]. 1 \<le> ?w k"
    using assms(1) by (auto simp: classes_defined_def intro!: binary_sum_pos)
  then have "real (length [0..<c]) \<le> sum_list (map ?w [0..<c])"
    by (rule sum_list_ge_length)
  then have nz: "sum_list (map ?w [0..<c]) \<noteq> 0" using assms(3) by auto
  have m: "map2 times (map ?a [0..<c]) (map ?w [0..<c]) = map (\<lambda>k. ?a k * ?w k) [0..<c]"
    by (simp add: zip_map_map zip_same_conv_map)
  have "np_average (map ?a [0..<c]) (map ?w [0..<c]) =
     Inr (Scalar ((\<Sum>k<c. ?a k * ?w k) / (\<Sum>k<c. ?w k)))"
    using nz unfolding np_average_def m sum_list_upt by simp
  then show ?thesis
    by (simp add: aggregate_def Let_def class_auc_values(1) [OF assms(1,2)] w)
qed

section \<open>The order of the samples does not matter\<close>

lemma zip_nth_upt: "length y = length p \<Longrightarrow> zip y p = map (\<lambda>i. (y ! i, p ! i)) [0..<length y]"
  by (rule nth_equalityI) auto

lemma scores_with_index:
  "length y = length p \<Longrightarrow>
   scores_with l y p = map ((!) p) (filter (\<lambda>i. y ! i = l) [0..<length y])"
  unfolding scores_with_def by (subst zip_nth_upt) (simp_all add: filter_map comp_def)

lemma pair_sum_scores:
  assumes "length y = length p"
  shows "pair_sum p (pos_of y) (neg_of y) = score_sum (scores_with 1 y p) (scores_with 0 y p)"
  unfolding scores_with_index [OF assms] score_sum_def pair_sum_def pos_of_def neg_of_def
  by (simp add: comp_def)

lemma length_scores_with:
  assumes "length y = length p"
  shows "length (scores_with 1 y p) = length (pos_of y)" "length (scores_with 0 y p) = length (neg_of y)"
  unfolding scores_with_index [OF assms] pos_of_def neg_of_def by simp_all

lemma score_sum_mset:
  "score_sum as bs = (\<Sum>a\<in>#mset as. \<Sum>b\<in>#mset bs. compare a b)"
  unfolding score_sum_def by (simp add: sum_mset_sum_list [symmetric] del: sum_mset_sum_list)

lemma score_sum_cong:
  "mset as = mset as' \<Longrightarrow> mset bs = mset bs' \<Longrightarrow> score_sum as bs = score_sum as' bs'"
  by (simp add: score_sum_mset)

lemma scores_with_mset:
  "mset (zip y p) = mset (zip y' p') \<Longrightarrow> mset (scores_with l y p) = mset (scores_with l y' p')"
  by (simp add: scores_with_def)

lemma calculate_equal_lengths:
  assumes "length y = length p"
  shows "calculate y p =
     (if \<not> (\<forall>l\<in>set y. l = 0 \<or> l = 1) then Inl (ValueError ''labels should be binary values.'')
      else if length (scores_with 1 y p) * length (scores_with 0 y p) = 0 then Inl ZeroDivisionError
      else Inr (score_sum (scores_with 1 y p) (scores_with 0 y p)
                 / real (length (scores_with 1 y p) * length (scores_with 0 y p))))"
proof (cases "\<forall>l\<in>set y. l = 0 \<or> l = 1")
  case False
  then have "label_loop y 0 [] [] = Inl (ValueError ''labels should be binary values.'')"
    unfolding label_loop_start by (rule if_not_P)
  then show ?thesis using False by (simp add: calculate_def)
next
  case True
  have r: "\<forall>i\<in>set (pos_of y). i < length p" "\<forall>j\<in>set (neg_of y). j < length p"
    using pos_neg_in_range [of _ y] unfolding assms by blast+
  show ?thesis
  proof (cases "pos_of y = [] \<or> neg_of y = []")
    case e: True
    then show ?thesis
      using True calculate_undefined [OF True e, of p] by (auto simp: length_scores_with [OF assms])
  next
    case False
    then show ?thesis
      using True calculate_InrI [OF True _ _ r]
      by (simp add: length_scores_with [OF assms] pair_sum_scores [OF assms])
  qed
qed

lemma set_labels_zip: "length y = length p \<Longrightarrow> set y = fst ` set (zip y p)"
  by (induction y p rule: list_induct2) auto

lemma calculate_permuted:
  assumes "length y = length p" "length y' = length p'" "mset (zip y p) = mset (zip y' p')"
  shows "calculate y p = calculate y' p'"
proof -
  have "set (zip y p) = set (zip y' p')" using assms(3) by (rule mset_eq_setD)
  then have s: "set y = set y'" using set_labels_zip assms(1,2) by metis
  have m: "mset (scores_with l y p) = mset (scores_with l y' p')" for l
    using assms(3) by (rule scores_with_mset)
  have l: "length (scores_with l y p) = length (scores_with l y' p')" for l
    using m [of l] by (rule mset_eq_length)
  show ?thesis
    unfolding calculate_equal_lengths [OF assms(1)] calculate_equal_lengths [OF assms(2)]
    by (simp add: s l score_sum_cong [OF m m])
qed

lemma mset_concat_Cons_map:
  "mset (concat (map (\<lambda>k. g k # f k) ks)) = mset (map g ks) + mset (concat (map f ks))"
  by (induction ks) auto

lemma zip_concat:
  "list_all2 (\<lambda>r s. length r = length s) Y P \<Longrightarrow>
   zip (concat Y) (concat P) = concat (map2 zip Y P)"
  by (induction Y P rule: list_all2_induct) auto

lemma nth_zip_upt: "length r = c \<Longrightarrow> length s = c \<Longrightarrow> map (\<lambda>k. (r ! k, s ! k)) [0..<c] = zip r s"
  using zip_nth_upt [of r s] by simp

lemma mset_pair_columns:
  "\<forall>(r, s)\<in>set rs. length r = c \<and> length s = c \<Longrightarrow>
   mset (concat (map (\<lambda>k. map (\<lambda>(r, s). (r ! k, s ! k)) rs) [0..<c])) =
   mset (concat (map (\<lambda>(r, s). zip r s) rs))"
proof (induction rs)
  case Nil
  show ?case by simp
next
  case (Cons x rs)
  obtain r s where x: "x = (r, s)" by (cases x)
  have l: "length r = c" "length s = c" using Cons.prems x by auto
  have IH: "mset (concat (map (\<lambda>k. map (\<lambda>(r, s). (r ! k, s ! k)) rs) [0..<c])) =
    mset (concat (map (\<lambda>(r, s). zip r s) rs))"
    using Cons by simp
  show ?case
    by (simp add: x mset_concat_Cons_map IH nth_zip_upt [OF l] del: mset_map)
qed

lemma zip_column: "length Y = length P \<Longrightarrow>
  zip (column k Y) (column k P) = map (\<lambda>(r, s). (r ! k, s ! k)) (zip Y P)"
  by (induction Y P rule: list_induct2) (auto simp: column_def)

lemma flatten_order:
  assumes "list_all (\<lambda>r. length r = c) Y" "list_all (\<lambda>r. length r = c) P" "length Y = length P"
  shows "mset (zip (concat Y) (concat P)) =
         mset (zip (concat (map (\<lambda>k. column k Y) [0..<c])) (concat (map (\<lambda>k. column k P) [0..<c])))"
proof -
  have a: "list_all2 (\<lambda>r s. length r = length s) Y P"
    using assms by (auto simp: list_all2_conv_all_nth list_all_length)
  have b: "list_all2 (\<lambda>r s. length r = length s) (map (\<lambda>k. column k Y) [0..<c]) (map (\<lambda>k. column k P) [0..<c])"
    using assms(3) by (auto simp: list_all2_conv_all_nth length_column)
  have c: "\<forall>(r, s)\<in>set (zip Y P). length r = c \<and> length s = c"
    using assms(1,2) by (auto simp: list_all_iff dest: set_zip_leftD set_zip_rightD)
  have "map2 zip (map (\<lambda>k. column k Y) [0..<c]) (map (\<lambda>k. column k P) [0..<c])
        = map (\<lambda>k. map (\<lambda>(r, s). (r ! k, s ! k)) (zip Y P)) [0..<c]"
    by (simp add: zip_map_map zip_same_conv_map zip_column [OF assms(3)])
  then show ?thesis
    unfolding zip_concat [OF a] zip_concat [OF b] using mset_pair_columns [OF c] by simp
qed

lemma length_concat_rows: "list_all (\<lambda>r. length r = c) M \<Longrightarrow> length (concat M) = length M * c"
  by (induction M) auto

lemma length_concat_columns: "length (concat (map (\<lambda>k. column k M) [0..<c])) = c * length M"
  by (induction c) (auto simp: length_column)

lemma calculate_flatten_order:
  assumes "list_all (\<lambda>r. length r = c) Y" "list_all (\<lambda>r. length r = c) P" "length Y = length P"
  shows "calculate (concat Y) (concat P) =
         calculate (concat (map (\<lambda>k. column k Y) [0..<c])) (concat (map (\<lambda>k. column k P) [0..<c]))"
proof (rule calculate_permuted)
  show "length (concat Y) = length (concat P)"
    using assms by (simp add: length_concat_rows)
  show "length (concat (map (\<lambda>k. column k Y) [0..<c])) = length (concat (map (\<lambda>k. column k P) [0..<c]))"
    using assms(3) by (simp add: length_concat_columns)
  show "mset (zip (concat Y) (concat P)) =
         mset (zip (concat (map (\<lambda>k. column k Y) [0..<c])) (concat (map (\<lambda>k. column k P) [0..<c])))"
    using assms by (rule flatten_order)
qed

lemma scores_seen_rows:
  "list_all (\<lambda>r. length r = c) P \<Longrightarrow> list_all (\<lambda>r. length r = c) (scores_seen a b P)"
  by (auto simp: scores_seen_def softmax_def Let_def list_all_iff)

section \<open>Errors and the comparisons before them\<close>

lemma aggregate_unsupported:
  assumes "average \<noteq> None" "average \<noteq> Some ''macro''" "average \<noteq> Some ''weighted''"
  shows "aggregate Y cy P c average =
     (case aggregate Y cy P c None of
        Inl e \<Rightarrow> Inl e
      | Inr r \<Rightarrow> Inl (ValueError ''unsupported average method.''))"
  using assms by (auto simp: aggregate_def Let_def split: sum.splits)

lemma compute_roc_auc_early:
  assumes "add_softmax \<and> add_sigmoid \<or> ndimension y \<notin> {1, 2}"
  shows "compute_roc_auc one_hot y_pred y to_onehot_y add_softmax add_sigmoid average =
         compute_roc_auc one_hot y_pred y to_onehot_y add_softmax add_sigmoid average'"
    and "\<exists>e. compute_roc_auc one_hot y_pred y to_onehot_y add_softmax add_sigmoid average = Inl e"
  using assms by (auto simp: compute_roc_auc_def)

lemma compute_roc_auc_unsupported:
  assumes "average \<notin> {None, Some ''micro'', Some ''macro'', Some ''weighted''}" "c \<noteq> 1"
  shows "compute_roc_auc one_hot (Tensor2 c P) y to_onehot_y add_softmax add_sigmoid average =
     (case compute_roc_auc one_hot (Tensor2 c P) y to_onehot_y add_softmax add_sigmoid None of
        Inl e \<Rightarrow> Inl e
      | Inr r \<Rightarrow> Inl (ValueError ''unsupported average method.''))"
proof (cases "add_softmax \<and> add_sigmoid \<or> ndimension y \<notin> {1, 2}")
  case True
  obtain e where "compute_roc_auc one_hot (Tensor2 c P) y to_onehot_y add_softmax add_sigmoid None = Inl e"
    using compute_roc_auc_early(2) [OF True] by blast
  then show ?thesis using compute_roc_auc_early(1) [OF True, of one_hot _ to_onehot_y average None] by simp
next
  case False
  then have f: "\<not> (add_softmax \<and> add_sigmoid)" "ndimension y \<in> {1, 2}" by simp_all
  have a: "average \<noteq> None" "average \<noteq> Some ''macro''" "average \<noteq> Some ''weighted''"
    "average \<noteq> Some ''micro''"
    using assms(1) by simp_all
  show ?thesis
    unfolding compute_roc_auc_rank2 [OF f assms(2)]
    by (simp add: a aggregate_unsupported [OF a(1,2,3)] split: sum.splits tensor.splits)
qed

lemma compute_roc_auc_average_ignored:
  "compute_roc_auc one_hot (Tensor1 p) y to_onehot_y add_softmax add_sigmoid average =
   compute_roc_auc one_hot (Tensor1 p) y to_onehot_y add_softmax add_sigmoid average'"
  "compute_roc_auc one_hot (Tensor2 1 P) y to_onehot_y add_softmax add_sigmoid average =
   compute_roc_auc one_hot (Tensor2 1 P) y to_onehot_y add_softmax add_sigmoid average'"
  by (simp_all add: compute_roc_auc_def Let_def)

lemma compute_roc_auc_none_defined:
  assumes "\<not> (add_softmax \<and> add_sigmoid)" "ndimension y \<in> {1, 2}" "c \<noteq> 1"
    and "labels_seen one_hot y to_onehot_y c = Inr (Tensor2 c Y)"
    and "length Y = length P" "classes_defined c Y"
  shows "compute_roc_auc one_hot (Tensor2 c P) y to_onehot_y add_softmax add_sigmoid None =
     Inr (PerClass (map (\<lambda>k. spec_binary_auc (column k Y) (column k (scores_seen add_softmax add_sigmoid P))) [0..<c]))"
proof -
  have l: "length Y = length (scores_seen add_softmax add_sigmoid P)"
    using assms(5) by (simp add: length_scores_seen)
  show ?thesis
    unfolding compute_roc_auc_rank2 [OF assms(1,2,3)]
    by (simp add: assms(4) aggregate_def Let_def class_auc_values(1) [OF assms(6) l])
qed

lemma inner_compares_count_ok:
  "i < length p \<Longrightarrow> \<forall>j\<in>set js. j < length p \<Longrightarrow> inner_compares_count p i js = length js"
  by (induction js) (auto simp: getitem_def)

lemma outer_sums_count_ok:
  "\<forall>i\<in>set is. i < length p \<Longrightarrow> \<forall>j\<in>set js. j < length p \<Longrightarrow>
   outer_sums_count p is js = length is * length js"
  by (induction "is") (auto simp: inner_compares_count_ok inner_compares_ok)

lemma calculate_count_returned:
  assumes "calculate y p = Inr v"
  shows "calculate_count y p = length (pos_of y) * length (neg_of y)"
proof -
  note d = calculate_InrD [OF assms]
  have "label_loop y 0 [] [] = Inr (pos_of y, neg_of y)"
    using d by (simp add: label_loop_start)
  then show ?thesis
    using d by (simp add: calculate_count_def outer_sums_count_ok)
qed

lemma calculate_ValueError:
  assumes "calculate y p = Inl (ValueError m)"
  shows "m = ''labels should be binary values.'' \<and> calculate_count y p = 0"
proof (cases "\<forall>l\<in>set y. l = 0 \<or> l = 1")
  case True
  then have "label_loop y 0 [] [] = Inr (pos_of y, neg_of y)" by (simp add: label_loop_start)
  then show ?thesis
    using assms outer_sums_error [of p "pos_of y" "neg_of y"]
    by (auto simp: calculate_def Let_def split: sum.splits if_splits)
next
  case False
  then have "label_loop y 0 [] [] = Inl (ValueError ''labels should be binary values.'')"
    unfolding label_loop_start by (rule if_not_P)
  then show ?thesis using assms by (simp add: calculate_def calculate_count_def)
qed

lemma calculate_tensor_ValueError:
  "calculate_tensor y p = Inl (ValueError m) \<Longrightarrow>
   m = ''labels should be binary values.'' \<and> calculate_tensor_count y p = 0"
  by (cases y) (auto dest: calculate_ValueError split: if_splits)

lemma auc_values_of_ValueError:
  "auc_values_of zs = Inl (ValueError m) \<Longrightarrow> m = ''labels should be binary values.''"
  by (induction zs) (auto dest: calculate_ValueError split: sum.splits)

lemma aggregate_ValueError:
  "aggregate Y cy P c average = Inl (ValueError m) \<Longrightarrow>
   m = ''labels should be binary values.'' \<or> m = ''unsupported average method.''"
  by (auto simp: aggregate_def Let_def np_average_def dest: auc_values_of_ValueError
      split: sum.splits if_splits)

lemma compute_roc_auc_count_early:
  "add_softmax \<and> add_sigmoid \<or> ndimension y_pred \<notin> {1, 2} \<or> ndimension y \<notin> {1, 2} \<Longrightarrow>
   compute_roc_auc_count one_hot y_pred y to_onehot_y add_softmax add_sigmoid average = 0"
  by (auto simp: compute_roc_auc_count_def)

lemma compute_roc_auc_count_rank2:
  assumes "\<not> (add_softmax \<and> add_sigmoid)" "ndimension y \<in> {1, 2}" "c \<noteq> 1"
  shows "compute_roc_auc_count one_hot (Tensor2 c P) y to_onehot_y add_softmax add_sigmoid average =
     (case labels_seen one_hot y to_onehot_y c of
        Inl e \<Rightarrow> 0
      | Inr y' \<Rightarrow>
          if average = Some ''micro'' then
            (case flat y' of
               Inl e \<Rightarrow> 0
             | Inr fy \<Rightarrow> calculate_count fy (concat (scores_seen add_softmax add_sigmoid P)))
          else
            (case y' of
               Tensor2 cy Y \<Rightarrow>
                 auc_values_count
                   (zip (transpose01 cy Y) (transpose01 c (scores_seen add_softmax add_sigmoid P)))
             | _ \<Rightarrow> 0))"
  using assms
  by (cases add_softmax; cases add_sigmoid)
     (simp_all add: compute_roc_auc_count_def labels_seen_def scores_seen_def Let_def
        cong: sum.case_cong tensor.case_cong if_cong)

lemma compute_roc_auc_count_rank1:
  assumes "\<not> (add_softmax \<and> add_sigmoid)" "ndimension y \<in> {1, 2}"
  shows "compute_roc_auc_count one_hot (Tensor1 p) y to_onehot_y add_softmax add_sigmoid average =
     calculate_tensor_count (squeeze_channel y) (if add_sigmoid then map sigmoid p else p)"
  using assms
  by (cases add_softmax; cases add_sigmoid) (simp_all add: compute_roc_auc_count_def Let_def)

lemma compute_roc_auc_count_squeezed:
  "compute_roc_auc_count one_hot (Tensor2 1 P) y to_onehot_y add_softmax add_sigmoid average =
   compute_roc_auc_count one_hot (Tensor1 (concat P)) y to_onehot_y add_softmax add_sigmoid average"
  by (simp add: compute_roc_auc_count_def Let_def)

lemma map_sum_Scalar_InlD: "map_sum id Scalar x = Inl e \<Longrightarrow> x = Inl e"
  by (cases x) auto

lemma rank1_ValueError_count:
  assumes "compute_roc_auc one_hot (Tensor1 p) y to_onehot_y add_softmax add_sigmoid average = Inl (ValueError m)"
  shows "compute_roc_auc_count one_hot (Tensor1 p) y to_onehot_y add_softmax add_sigmoid average = 0"
    and "m \<noteq> ''labels should be binary values.'' \<Longrightarrow>
         add_softmax \<and> add_sigmoid \<or> ndimension y \<notin> {1, 2}"
proof -
  have *: "compute_roc_auc_count one_hot (Tensor1 p) y to_onehot_y add_softmax add_sigmoid average = 0 \<and>
        (m \<noteq> ''labels should be binary values.'' \<longrightarrow> add_softmax \<and> add_sigmoid \<or> ndimension y \<notin> {1, 2})"
  proof (cases "add_softmax \<and> add_sigmoid \<or> ndimension y \<notin> {1, 2}")
    case True
    then show ?thesis using compute_roc_auc_count_early [of add_softmax add_sigmoid "Tensor1 p" y] by blast
  next
    case False
    then have f: "\<not> (add_softmax \<and> add_sigmoid)" "ndimension y \<in> {1, 2}" by simp_all
    have "calculate_tensor (squeeze_channel y) (if add_sigmoid then map sigmoid p else p) = Inl (ValueError m)"
      using assms unfolding compute_roc_auc_rank1 [OF f] by (rule map_sum_Scalar_InlD)
    then show ?thesis
      unfolding compute_roc_auc_count_rank1 [OF f] using calculate_tensor_ValueError by blast
  qed
  show "compute_roc_auc_count one_hot (Tensor1 p) y to_onehot_y add_softmax add_sigmoid average = 0"
    using * by simp
  show "add_softmax \<and> add_sigmoid \<or> ndimension y \<notin> {1, 2}" if "m \<noteq> ''labels should be binary values.''"
    using * that by simp
qed

lemma ValueError_count:
  assumes "compute_roc_auc one_hot y_pred y to_onehot_y add_softmax add_sigmoid average = Inl (ValueError m)"
    and "m \<noteq> ''labels should be binary values.'' \<and> m \<noteq> ''unsupported average method.'' \<or>
         ndimension (squeeze_channel y_pred) = 1 \<or> average = Some ''micro''"
  shows "compute_roc_auc_count one_hot y_pred y to_onehot_y add_softmax add_sigmoid average = 0"
proof (cases "add_softmax \<and> add_sigmoid \<or> ndimension y_pred \<notin> {1, 2} \<or> ndimension y \<notin> {1, 2}")
  case True
  then show ?thesis by (rule compute_roc_auc_count_early)
next
  case False
  then have f: "\<not> (add_softmax \<and> add_sigmoid)" "ndimension y \<in> {1, 2}"
    and r: "ndimension y_pred \<in> {1, 2}" by simp_all
  show ?thesis
  proof (cases y_pred)
    case (Tensor1 p)
    show ?thesis
      using assms(1) unfolding Tensor1 by (rule rank1_ValueError_count(1))
  next
    case (Tensor2 c P)
    show ?thesis
    proof (cases "c = 1")
      case True
      show ?thesis
        using assms(1)
        unfolding Tensor2 True compute_roc_auc_squeezed compute_roc_auc_count_squeezed
        by (rule rank1_ValueError_count(1))
    next
      case c: False
      let ?P = "scores_seen add_softmax add_sigmoid P"
      note unf = compute_roc_auc_rank2 [OF f c, of one_hot P to_onehot_y average]
      note cnt = compute_roc_auc_count_rank2 [OF f c, of one_hot P to_onehot_y average]
      have sq: "ndimension (squeeze_channel y_pred) \<noteq> 1" using c by (simp add: Tensor2)
      show ?thesis
      proof (cases "labels_seen one_hot y to_onehot_y c")
        case (Inl e)
        then show ?thesis unfolding Tensor2 cnt by simp
      next
        case (Inr y')
        show ?thesis
        proof (cases "average = Some ''micro''")
          case True
          show ?thesis
          proof (cases "flat y'")
            case (Inl e)
            then show ?thesis unfolding Tensor2 cnt by (simp add: Inr True)
          next
            case fy: (Inr fy)
            have "map_sum id Scalar (calculate fy (concat ?P)) = Inl (ValueError m)"
              using assms(1) unfolding Tensor2 unf by (simp add: Inr True fy)
            then have "calculate fy (concat ?P) = Inl (ValueError m)" by (rule map_sum_Scalar_InlD)
            then have "calculate_count fy (concat ?P) = 0" using calculate_ValueError by blast
            then show ?thesis unfolding Tensor2 cnt by (simp add: Inr True fy)
          qed
        next
          case False
          then have m: "m \<noteq> ''labels should be binary values.''" "m \<noteq> ''unsupported average method.''"
            using assms(2) sq by simp_all
          show ?thesis
          proof (cases "\<exists>cy Y. y' = Tensor2 cy Y")
            case True
            then obtain cy Y where Y: "y' = Tensor2 cy Y" by blast
            have "aggregate Y cy ?P c average = Inl (ValueError m)"
              using assms(1) unfolding Tensor2 unf by (simp add: Inr False Y)
            then show ?thesis using aggregate_ValueError m by blast
          next
            case n: False
            then show ?thesis unfolding Tensor2 cnt by (cases y') (simp_all add: Inr False)
          qed
        qed
      qed
    qed
  qed (use r in auto)
qed

section \<open>The binary AUC\<close>

text \<open>
  Claim C1. On labels that are all 0 or 1, with at least one of each, and as many scores as
  labels, \<^verbatim>\<open>_calculate\<close> returns the specification's ratio: the sum, over the pairs of an
  index with label 1 and an index with label 0, of the comparator (1, one half, 0), divided
  by the number of such pairs. On labels 0, 0, 1, 1 and scores 0.1, 0.4, 0.35, 0.8 it
  returns 0.75, and so does \<^verbatim>\<open>compute_roc_auc\<close> on the two vectors.
\<close>

theorem calculate_is_pairwise_ratio:
  "(set y \<subseteq> {0, 1} \<and> 1 \<in> set y \<and> 0 \<in> set y \<and> length y_pred = length y \<longrightarrow>
      calculate y y_pred = Inr (spec_binary_auc y y_pred)) \<and>
   calculate [0, 0, 1, 1] [0.1, 0.4, 0.35, 0.8] = Inr 0.75 \<and>
   compute_roc_auc one_hot (Tensor1 [0.1, 0.4, 0.35, 0.8]) (Tensor1 [0, 0, 1, 1])
      False False False (Some ''macro'') = Inr (Scalar 0.75)"
proof -
  have ex: "calculate [0, 0, 1, 1] [0.1, 0.4, 0.35, 0.8] = Inr 0.75"
    by (simp add: calculate_def getitem_def compare_def)
  have "compute_roc_auc one_hot (Tensor1 [0.1, 0.4, 0.35, 0.8]) (Tensor1 [0, 0, 1, 1])
      False False False (Some ''macro'') = Inr (Scalar 0.75)"
    using ex by (simp add: compute_roc_auc_def)
  then show ?thesis using ex calculate_spec by blast
qed

theorem calculate_is_pairwise_ratio_witness:
  "set [0, 1, 1 :: real] \<subseteq> {0, 1} \<and> (1::real) \<in> set [0, 1, 1] \<and> (0::real) \<in> set [0, 1, 1] \<and>
   length [0.5, 0.5, 0.9 :: real] = length [0, 1, 1 :: real] \<and>
   calculate [0, 1, 1] [0.5, 0.5, 0.9] = Inr (3 / 4) \<and>
   spec_binary_auc [0, 1, 1] [0.5, 0.5, 0.9] = 3 / 4"
proof -
  have c: "calculate [0, 1, 1] [0.5, 0.5, 0.9] = Inr (3 / 4)"
    by (simp add: calculate_def getitem_def compare_def)
  have "calculate [0, 1, 1] [0.5, 0.5, 0.9] = Inr (spec_binary_auc [0, 1, 1] [0.5, 0.5, 0.9])"
    using calculate_is_pairwise_ratio [of "[0, 1, 1]" "[0.5, 0.5, 0.9]"] by simp
  then show ?thesis using c by simp
qed

text \<open>
  Claim C2, as stated, fails. On labels that are all 0 or 1 and have no 0 the call does
  fail, but not with an error that the source defines or documents for this case: the sums
  of line 34 are computed, the divisor of line 36 is zero, and the failure is the
  \<^verbatim>\<open>ZeroDivisionError\<close> of the division itself, for which the source has no
  \<^verbatim>\<open>raise\<close> statement and no message. Labels 1, 1, 1 are such a vector.
\<close>

theorem zero_division_not_raised_by_source_counterexample:
  "set [1, 1, 1 :: real] \<subseteq> {0, 1} \<and> (0::real) \<notin> set [1, 1, 1] \<and>
   calculate [1, 1, 1] [0.2, 0.5, 0.9] = Inl ZeroDivisionError \<and>
   \<not> raised_by_source ZeroDivisionError \<and>
   raised_by_source (ValueError ''labels should be binary values.'')"
  by (simp add: calculate_def)

text \<open>
  Claim C2, amended. On labels that are all 0 or 1, with no 1 or with no 0, \<^verbatim>\<open>_calculate\<close>
  fails, whatever the scores, and always in the same way: with the \<^verbatim>\<open>ZeroDivisionError\<close>
  of the division of line 36, which is none of the errors the source raises itself. It
  returns no value, so neither nan nor an infinity.
\<close>

theorem calculate_zero_division:
  "set y \<subseteq> {0, 1} \<Longrightarrow> 1 \<notin> set y \<or> 0 \<notin> set y \<Longrightarrow>
   calculate y y_pred = Inl ZeroDivisionError \<and> \<not> raised_by_source ZeroDivisionError"
  using calculate_undefined [of y y_pred] by (auto simp: pos_of_empty_iff neg_of_empty_iff)

theorem calculate_zero_division_witness:
  "set [0, 0 :: real] \<subseteq> {0, 1} \<and> (1::real) \<notin> set [0, 0] \<and>
   calculate [0, 0] [0.3, 0.4] = Inl ZeroDivisionError"
  using calculate_zero_division [of "[0, 0]" "[0.3, 0.4]"] by simp

text \<open>
  Claim C8. A strictly increasing function applied to every score changes nothing:
  \<^verbatim>\<open>_calculate\<close> on the transformed scores gives what it gives on the scores, value or
  error.
\<close>

theorem calculate_strict_mono_invariant:
  "strict_mono f \<Longrightarrow> calculate y (map f y_pred) = calculate y y_pred"
  by (simp add: calculate_def outer_sums_map cong: sum.case_cong)

theorem calculate_strict_mono_invariant_witness:
  "strict_mono (\<lambda>x::real. 2 * x + 1) \<and>
   calculate [0, 1, 1, 0] (map (\<lambda>x. 2 * x + 1) [0.2, 0.7, 0.1, 0.1]) = Inr (5 / 8) \<and>
   calculate [0, 1, 1, 0] [0.2, 0.7, 0.1, 0.1] = Inr (5 / 8)"
proof -
  have m: "strict_mono (\<lambda>x::real. 2 * x + 1)" by (simp add: strict_mono_def)
  have c: "calculate [0, 1, 1, 0] [0.2, 0.7, 0.1, 0.1] = Inr (5 / 8)"
    by (simp add: calculate_def getitem_def compare_def)
  show ?thesis
    using m c calculate_strict_mono_invariant [OF m, of "[0, 1, 1, 0]" "[0.2, 0.7, 0.1, 0.1]"]
    by simp
qed

text \<open>
  Claim C9. When some label is neither 0 nor 1, \<^verbatim>\<open>_calculate\<close> fails with the
  \<^verbatim>\<open>ValueError\<close> of line 25, and so does \<^verbatim>\<open>compute_roc_auc\<close> on a label vector and a
  score vector (unless both transforms are asked for, which is refused first). When every
  label is 0 or 1, the loop returns the indices with label 1, in order, as
  \<^verbatim>\<open>pos_indexes\<close> and the indices with label 0 as \<^verbatim>\<open>neg_indexes\<close>.
\<close>

theorem invalid_label_and_partition:
  "((\<exists>l\<in>set y. l \<noteq> 0 \<and> l \<noteq> 1) \<longrightarrow>
      calculate y y_pred = Inl (ValueError ''labels should be binary values.'') \<and>
      (\<not> (add_softmax \<and> add_sigmoid) \<longrightarrow>
        compute_roc_auc one_hot (Tensor1 y_pred) (Tensor1 y) to_onehot_y add_softmax add_sigmoid average
          = Inl (ValueError ''labels should be binary values.''))) \<and>
   ((\<forall>l\<in>set y. l = 0 \<or> l = 1) \<longrightarrow>
      label_loop y 0 [] [] =
        Inr (filter (\<lambda>i. y ! i = 1) [0..<length y], filter (\<lambda>i. y ! i = 0) [0..<length y]))"
proof -
  have "calculate y p = Inl (ValueError ''labels should be binary values.'')"
    if "\<exists>l\<in>set y. l \<noteq> 0 \<and> l \<noteq> 1" for p
    using that by (auto simp: calculate_def label_loop_start)
  then show ?thesis
    by (auto simp: compute_roc_auc_def Let_def label_loop_start pos_of_def neg_of_def)
qed

theorem invalid_label_and_partition_witness:
  "(2::real) \<in> set [1, 2, 0] \<and>
   calculate [1, 2, 0] [0.3, 0.2, 0.1] = Inl (ValueError ''labels should be binary values.'') \<and>
   compute_roc_auc (\<lambda>t n. Inl TypeError) (Tensor1 [0.3, 0.2, 0.1]) (Tensor1 [1, 2, 0])
     False False False (Some ''macro'')
     = Inl (ValueError ''labels should be binary values.'') \<and>
   label_loop [1, 0, 0, 1] 0 [] [] = Inr ([0, 3], [1, 2])"
proof -
  have a: "\<exists>l\<in>set [1, 2, 0 :: real]. l \<noteq> 0 \<and> l \<noteq> 1" by simp
  have b: "\<forall>l\<in>set [1, 0, 0, 1 :: real]. l = 0 \<or> l = 1" by simp
  have f: "filter (\<lambda>i. [1, 0, 0, 1 :: real] ! i = 1) [0..<length [1, 0, 0, 1 :: real]] = [0, 3]"
    "filter (\<lambda>i. [1, 0, 0, 1 :: real] ! i = 0) [0..<length [1, 0, 0, 1 :: real]] = [1, 2]"
    by (simp_all add: upt_conv_Cons)
  have 1: "calculate [1, 2, 0] [0.3, 0.2, 0.1] = Inl (ValueError ''labels should be binary values.'')"
    "compute_roc_auc (\<lambda>t n. Inl TypeError) (Tensor1 [0.3, 0.2, 0.1]) (Tensor1 [1, 2, 0])
       False False False (Some ''macro'')
     = Inl (ValueError ''labels should be binary values.'')"
    using a invalid_label_and_partition [of "[1, 2, 0]" "[0.3, 0.2, 0.1]" False False
        "\<lambda>t n. Inl TypeError" False "Some ''macro''"]
    by blast+
  have 2: "label_loop [1, 0, 0, 1] 0 [] [] = Inr ([0, 3], [1, 2])"
    using b invalid_label_and_partition [of "[1, 0, 0, 1]"] unfolding f by blast
  show ?thesis using 1 2 by simp
qed

text \<open>
  Claim C10. Swapping the labels 0 and 1 and keeping the scores turns the value of
  \<^verbatim>\<open>_calculate\<close> into one minus that value: whenever the call on the labels returns \<open>v\<close>,
  the call on the swapped labels returns \<open>1 - v\<close>; and on labels that are all 0 or 1, with at
  least one of each, and as many scores, both calls return.
\<close>

theorem calculate_complement_labels:
  "(calculate y y_pred = Inr v \<longrightarrow> calculate (map complement y) y_pred = Inr (1 - v)) \<and>
   (set y \<subseteq> {0, 1} \<and> 1 \<in> set y \<and> 0 \<in> set y \<and> length y_pred = length y \<longrightarrow>
      (\<exists>v. calculate y y_pred = Inr v \<and> calculate (map complement y) y_pred = Inr (1 - v)))"
  using calculate_complement calculate_spec by blast

theorem calculate_complement_labels_witness:
  "calculate [0, 1, 1, 0] [0.2, 0.7, 0.1, 0.1] = Inr (5 / 8) \<and>
   calculate (map complement [0, 1, 1, 0]) [0.2, 0.7, 0.1, 0.1] = Inr (1 - 5 / 8) \<and>
   map complement [0, 1, 1, 0] = [1, 0, 0, 1] \<and>
   set [0, 1, 1, 0 :: real] \<subseteq> {0, 1} \<and> (1::real) \<in> set [0, 1, 1, 0] \<and> (0::real) \<in> set [0, 1, 1, 0] \<and>
   length [0.2, 0.7, 0.1, 0.1 :: real] = length [0, 1, 1, 0 :: real] \<and>
   (\<exists>v. calculate [0, 1, 1, 0] [0.2, 0.7, 0.1, 0.1] = Inr v \<and>
        calculate (map complement [0, 1, 1, 0]) [0.2, 0.7, 0.1, 0.1] = Inr (1 - v))"
proof -
  have c: "calculate [0, 1, 1, 0] [0.2, 0.7, 0.1, 0.1] = Inr (5 / 8)"
    by (simp add: calculate_def getitem_def compare_def)
  have m: "map complement [0, 1, 1, 0] = [1, 0, 0, 1]" by (simp add: complement_def)
  have h: "set [0, 1, 1, 0 :: real] \<subseteq> {0, 1} \<and> (1::real) \<in> set [0, 1, 1, 0] \<and>
     (0::real) \<in> set [0, 1, 1, 0] \<and>
     length [0.2, 0.7, 0.1, 0.1 :: real] = length [0, 1, 1, 0 :: real]"
    by simp
  note t = calculate_complement_labels [of "[0, 1, 1, 0]" "[0.2, 0.7, 0.1, 0.1]" "5 / 8"]
  have 1: "calculate (map complement [0, 1, 1, 0]) [0.2, 0.7, 0.1, 0.1] = Inr (1 - 5 / 8)"
    using t [THEN conjunct1] c by (rule mp)
  have 2: "\<exists>v. calculate [0, 1, 1, 0] [0.2, 0.7, 0.1, 0.1] = Inr v \<and>
        calculate (map complement [0, 1, 1, 0]) [0.2, 0.7, 0.1, 0.1] = Inr (1 - v)"
    using t [THEN conjunct2] h by (rule mp)
  show ?thesis using c m h 1 2 by blast
qed

section \<open>The averages\<close>

lemma example_classes_defined: "classes_defined 2 [[1, 0], [0, 1], [1, 1], [1, 0]]"
  by (simp add: classes_defined_def column_def numeral_2_eq_2 All_less_Suc)

text \<open>
  Claim C5. On a score matrix with at least two class columns and a label matrix of the
  same shape (given as it is, or produced by the encoder) in which every class column holds
  only 0 and 1 and at least one of each, with at most one transform asked for,
  \<^verbatim>\<open>average='weighted'\<close> returns the sum over the classes of the class's BinaryAUC times
  the sum of the class's label column, divided by the sum of all these column sums. The
  BinaryAUC of a class is what \<^verbatim>\<open>_calculate\<close> returns on the class's label column and
  score column, and it is the specification's ratio.
\<close>

theorem weighted_average_formula:
  assumes "\<not> (add_softmax \<and> add_sigmoid)" "ndimension y \<in> {1, 2}" "2 \<le> c"
    and "labels_seen one_hot y to_onehot_y c = Inr (Tensor2 c Y)"
    and "well_shaped (Tensor2 c P)" "well_shaped (Tensor2 c Y)" "length Y = length P"
    and "classes_defined c Y"
  shows "(\<forall>k<c. calculate (column k Y) (column k (scores_seen add_softmax add_sigmoid P)) =
            Inr (spec_binary_auc (column k Y) (column k (scores_seen add_softmax add_sigmoid P)))) \<and>
         compute_roc_auc one_hot (Tensor2 c P) y to_onehot_y add_softmax add_sigmoid (Some ''weighted'') =
           Inr (Scalar
             ((\<Sum>k<c. spec_binary_auc (column k Y) (column k (scores_seen add_softmax add_sigmoid P))
                        * sum_list (column k Y))
               / (\<Sum>k<c. sum_list (column k Y))))"
proof -
  let ?P = "scores_seen add_softmax add_sigmoid P"
  have c: "c \<noteq> 1" "c \<noteq> 0" using assms(3) by simp_all
  have l: "length Y = length ?P" using assms(7) by (simp add: length_scores_seen)
  have "compute_roc_auc one_hot (Tensor2 c P) y to_onehot_y add_softmax add_sigmoid (Some ''weighted'')
          = aggregate Y c ?P c (Some ''weighted'')"
    unfolding compute_roc_auc_rank2 [OF assms(1,2) c(1)] by (simp add: assms(4))
  then show ?thesis
    using aggregate_weighted [OF assms(8) l c(2)] class_auc_values(2) [OF assms(8) l] by simp
qed

theorem weighted_average_formula_witness:
  "compute_roc_auc (\<lambda>t n. Inl TypeError)
     (Tensor2 2 [[0.9, 0.1], [0.2, 0.8], [0.6, 0.7], [0.3, 0.9]])
     (Tensor2 2 [[1, 0], [0, 1], [1, 1], [1, 0]]) False False False (Some ''weighted'')
     = Inr (Scalar (4 / 5)) \<and>
   (\<Sum>k<2. spec_binary_auc (column k [[1, 0], [0, 1], [1, 1], [1, 0]])
                (column k [[0.9, 0.1], [0.2, 0.8], [0.6, 0.7], [0.3, 0.9]])
              * sum_list (column k [[1, 0], [0, 1], [1, 1], [1, 0]]))
     / (\<Sum>k<2. sum_list (column k [[1, 0], [0, 1], [1, 1], [1, 0]])) = 4 / 5 \<and>
   calculate (column 1 [[1, 0], [0, 1], [1, 1], [1, 0]])
     (column 1 [[0.9, 0.1], [0.2, 0.8], [0.6, 0.7], [0.3, 0.9]]) = Inr (1 / 2)"
proof -
  let ?P = "[[0.9, 0.1], [0.2, 0.8], [0.6, 0.7], [0.3, 0.9 :: real]]"
  let ?Y = "[[1, 0], [0, 1], [1, 1], [1, 0 :: real]]"
  let ?oh = "\<lambda>(t :: tensor) (n :: nat). Inl TypeError :: error + nat \<times> real list list"
  have e: "compute_roc_auc ?oh (Tensor2 2 ?P) (Tensor2 2 ?Y) False False False (Some ''weighted'')
     = Inr (Scalar (4 / 5))"
    by (simp add: compute_roc_auc_def aggregate_def transpose01_def calculate_def getitem_def
        compare_def np_average_def Let_def upt_conv_Cons)
  have c: "calculate (column 1 ?Y) (column 1 ?P) = Inr (1 / 2)"
    by (simp add: column_def calculate_def getitem_def compare_def)
  have s: "scores_seen False False ?P = ?P" by (simp add: scores_seen_def)
  have l: "labels_seen ?oh (Tensor2 2 ?Y) False 2 = Inr (Tensor2 2 ?Y)"
    by (simp add: labels_seen_def)
  note t = weighted_average_formula [of False False "Tensor2 2 ?Y" 2 ?oh False ?Y ?P, unfolded s, OF _ _ _ l _ _ _ example_classes_defined]
  have "compute_roc_auc ?oh (Tensor2 2 ?P) (Tensor2 2 ?Y) False False False (Some ''weighted'') =
           Inr (Scalar
             ((\<Sum>k<2. spec_binary_auc (column k ?Y) (column k ?P) * sum_list (column k ?Y))
               / (\<Sum>k<2. sum_list (column k ?Y))))"
    using t by simp
  then show ?thesis using e c by simp
qed

text \<open>
  Claim C6. On a score matrix whose number of columns is not one and a label matrix, with
  at most one transform asked for, \<^verbatim>\<open>average='micro'\<close> returns what \<^verbatim>\<open>_calculate\<close> gives
  on the labels and the scores flattened row after row, each entry once and both in the
  same order. When the two matrices have the same shape, that is also what \<^verbatim>\<open>_calculate\<close>
  gives on the concatenation of the class columns of the labels against the concatenation
  of the class columns of the scores.
\<close>

theorem micro_is_flattened_auc:
  assumes "\<not> (add_softmax \<and> add_sigmoid)" "ndimension y \<in> {1, 2}" "c \<noteq> 1"
    and "labels_seen one_hot y to_onehot_y c = Inr (Tensor2 cy Y)"
  shows "compute_roc_auc one_hot (Tensor2 c P) y to_onehot_y add_softmax add_sigmoid (Some ''micro'') =
           map_sum id Scalar (calculate (concat Y) (concat (scores_seen add_softmax add_sigmoid P))) \<and>
         (cy = c \<and> well_shaped (Tensor2 c Y) \<and> well_shaped (Tensor2 c P) \<and> length Y = length P \<longrightarrow>
            calculate (concat Y) (concat (scores_seen add_softmax add_sigmoid P)) =
            calculate (concat (map (\<lambda>k. column k Y) [0..<c]))
                      (concat (map (\<lambda>k. column k (scores_seen add_softmax add_sigmoid P)) [0..<c])))"
proof -
  have "compute_roc_auc one_hot (Tensor2 c P) y to_onehot_y add_softmax add_sigmoid (Some ''micro'') =
           map_sum id Scalar (calculate (concat Y) (concat (scores_seen add_softmax add_sigmoid P)))"
    unfolding compute_roc_auc_rank2 [OF assms(1,2,3)] by (simp add: assms(4))
  then show ?thesis
    using calculate_flatten_order [of c Y "scores_seen add_softmax add_sigmoid P"]
    by (simp add: scores_seen_rows length_scores_seen)
qed

theorem micro_is_flattened_auc_witness:
  "compute_roc_auc (\<lambda>t n. Inl TypeError)
     (Tensor2 2 [[0.9, 0.1], [0.2, 0.8], [0.6, 0.7], [0.3, 0.9]])
     (Tensor2 2 [[1, 0], [0, 1], [1, 1], [1, 0]]) False False False (Some ''micro'')
     = Inr (Scalar (7 / 10)) \<and>
   calculate [1, 0, 0, 1, 1, 1, 1, 0] [0.9, 0.1, 0.2, 0.8, 0.6, 0.7, 0.3, 0.9] = Inr (7 / 10) \<and>
   calculate [1, 0, 1, 1, 0, 1, 1, 0] [0.9, 0.2, 0.6, 0.3, 0.1, 0.8, 0.7, 0.9] = Inr (7 / 10)"
proof -
  let ?P = "[[0.9, 0.1], [0.2, 0.8], [0.6, 0.7], [0.3, 0.9 :: real]]"
  let ?Y = "[[1, 0], [0, 1], [1, 1], [1, 0 :: real]]"
  let ?oh = "\<lambda>(t :: tensor) (n :: nat). Inl TypeError :: error + nat \<times> real list list"
  have s: "scores_seen False False ?P = ?P" by (simp add: scores_seen_def)
  have l: "labels_seen ?oh (Tensor2 2 ?Y) False 2 = Inr (Tensor2 2 ?Y)"
    by (simp add: labels_seen_def)
  have r: "concat ?Y = [1, 0, 0, 1, 1, 1, 1, 0]" "concat ?P = [0.9, 0.1, 0.2, 0.8, 0.6, 0.7, 0.3, 0.9]"
    by simp_all
  have k: "concat (map (\<lambda>k. column k ?Y) [0..<2]) = [1, 0, 1, 1, 0, 1, 1, 0]"
    "concat (map (\<lambda>k. column k ?P) [0..<2]) = [0.9, 0.2, 0.6, 0.3, 0.1, 0.8, 0.7, 0.9]"
    by (simp_all add: column_def upt_conv_Cons)
  have c: "calculate [1, 0, 0, 1, 1, 1, 1, 0] [0.9, 0.1, 0.2, 0.8, 0.6, 0.7, 0.3, 0.9] = Inr (7 / 10)"
    by (simp add: calculate_def getitem_def compare_def)
  note t = micro_is_flattened_auc [of False False "Tensor2 2 ?Y" 2 ?oh False 2 ?Y ?P, unfolded s r k, OF _ _ _ l]
  have "compute_roc_auc ?oh (Tensor2 2 ?P) (Tensor2 2 ?Y) False False False (Some ''micro'') =
           map_sum id Scalar (calculate [1, 0, 0, 1, 1, 1, 1, 0] [0.9, 0.1, 0.2, 0.8, 0.6, 0.7, 0.3, 0.9]) \<and>
        calculate [1, 0, 0, 1, 1, 1, 1, 0] [0.9, 0.1, 0.2, 0.8, 0.6, 0.7, 0.3, 0.9] =
        calculate [1, 0, 1, 1, 0, 1, 1, 0] [0.9, 0.2, 0.6, 0.3, 0.1, 0.8, 0.7, 0.9]"
    using t by simp
  then show ?thesis using c by simp
qed

text \<open>
  Claim C7, as stated, fails on a score matrix with no class column: no binary problem is
  computed, \<^verbatim>\<open>auc_values\<close> is empty, and \<^verbatim>\<open>average='macro'\<close> returns the nan of
  \<^verbatim>\<open>np.mean([])\<close>, which is not in the interval.
\<close>

theorem macro_no_classes_nan_counterexample:
  "compute_roc_auc (\<lambda>t n. Inl TypeError) (Tensor2 0 [[], []]) (Tensor2 0 [[], []])
     False False False (Some ''macro'') = Inr NaN"
  by (simp add: compute_roc_auc_def aggregate_def transpose01_def np_mean_def)

text \<open>
  Claim C7, amended. Whatever \<^verbatim>\<open>compute_roc_auc\<close> returns is a number between 0 and 1
  or a list of such numbers, with one exception: \<^verbatim>\<open>average='macro'\<close> returns nan when
  the list of the class values is empty, that is when \<^verbatim>\<open>average=None\<close> returns the empty
  list on the same arguments.
\<close>

theorem returned_values_in_unit_interval:
  "compute_roc_auc one_hot y_pred y to_onehot_y add_softmax add_sigmoid average = Inr r \<Longrightarrow>
   in_unit_interval r \<or>
   (r = NaN \<and> average = Some ''macro'' \<and>
    compute_roc_auc one_hot y_pred y to_onehot_y add_softmax add_sigmoid None = Inr (PerClass []))"
  by (rule compute_roc_auc_unit)

theorem returned_values_in_unit_interval_witness:
  "compute_roc_auc (\<lambda>t n. Inl TypeError)
     (Tensor2 2 [[0.9, 0.1], [0.2, 0.8], [0.6, 0.7], [0.3, 0.9]])
     (Tensor2 2 [[1, 0], [0, 1], [1, 1], [1, 0]]) False False False (Some ''macro'')
     = Inr (Scalar (3 / 4)) \<and>
   in_unit_interval (Scalar (3 / 4))"
proof -
  have e: "compute_roc_auc (\<lambda>t n. Inl TypeError)
     (Tensor2 2 [[0.9, 0.1], [0.2, 0.8], [0.6, 0.7], [0.3, 0.9]])
     (Tensor2 2 [[1, 0], [0, 1], [1, 1], [1, 0]]) False False False (Some ''macro'')
     = Inr (Scalar (3 / 4))"
    by (simp add: compute_roc_auc_def aggregate_def transpose01_def calculate_def getitem_def
        compare_def np_mean_def Let_def upt_conv_Cons)
  show ?thesis using e returned_values_in_unit_interval [OF e] by simp
qed

section \<open>Errors\<close>

text \<open>
  Claim C3, as stated, fails on scores of rank 1: line 91 returns the value of
  \<^verbatim>\<open>_calculate\<close> without looking at \<^verbatim>\<open>average\<close>. With an average that is none of the
  four, the call on labels 0, 0, 1, 1 and scores 0.1, 0.4, 0.35, 0.8 returns 0.75.
\<close>

theorem binary_ignores_average_counterexample:
  "compute_roc_auc (\<lambda>t n. Inl TypeError) (Tensor1 [0.1, 0.4, 0.35, 0.8]) (Tensor1 [0, 0, 1, 1])
     False False False (Some ''median'') = Inr (Scalar (3 / 4))"
  by (simp add: compute_roc_auc_def calculate_def getitem_def compare_def)

text \<open>
  Claim C3, amended. Let \<^verbatim>\<open>average\<close> be none of \<^verbatim>\<open>None\<close>, \<^verbatim>\<open>'micro'\<close>, \<^verbatim>\<open>'macro'\<close>
  and \<^verbatim>\<open>'weighted'\<close>. On a score matrix whose number of columns is not one the call
  always fails: with the error that the call with \<^verbatim>\<open>average=None\<close> fails with on the
  same arguments when that call fails, and with the \<^verbatim>\<open>ValueError\<close> of line 113 when that
  call returns; it returns, so the error is that of line 113, when at most one transform is
  asked for and the label matrix has the shape of the scores and a 0 and a 1, and nothing
  else, in every class column. On scores of rank 1, or of rank 2 with one column, the
  call does what it does with \<^verbatim>\<open>average=None\<close>: the argument is not looked at.
\<close>

theorem unsupported_average_rank2:
  assumes "average \<notin> {None, Some ''micro'', Some ''macro'', Some ''weighted''}"
  shows "(c \<noteq> 1 \<longrightarrow>
           compute_roc_auc one_hot (Tensor2 c P) y to_onehot_y add_softmax add_sigmoid average =
             (case compute_roc_auc one_hot (Tensor2 c P) y to_onehot_y add_softmax add_sigmoid None of
                Inl e \<Rightarrow> Inl e
              | Inr r \<Rightarrow> Inl (ValueError ''unsupported average method.''))) \<and>
         (c \<noteq> 1 \<and> \<not> (add_softmax \<and> add_sigmoid) \<and> ndimension y \<in> {1, 2} \<and>
          labels_seen one_hot y to_onehot_y c = Inr (Tensor2 c Y) \<and>
          well_shaped (Tensor2 c P) \<and> well_shaped (Tensor2 c Y) \<and> length Y = length P \<and>
          classes_defined c Y \<longrightarrow>
           compute_roc_auc one_hot (Tensor2 c P) y to_onehot_y add_softmax add_sigmoid average =
             Inl (ValueError ''unsupported average method.'')) \<and>
         compute_roc_auc one_hot (Tensor1 p) y to_onehot_y add_softmax add_sigmoid average =
           compute_roc_auc one_hot (Tensor1 p) y to_onehot_y add_softmax add_sigmoid None \<and>
         compute_roc_auc one_hot (Tensor2 1 P) y to_onehot_y add_softmax add_sigmoid average =
           compute_roc_auc one_hot (Tensor2 1 P) y to_onehot_y add_softmax add_sigmoid None"
  using compute_roc_auc_unsupported [OF assms, of c one_hot P y to_onehot_y add_softmax add_sigmoid]
    compute_roc_auc_none_defined [of add_softmax add_sigmoid y c one_hot to_onehot_y Y P]
    compute_roc_auc_average_ignored [of one_hot _ y to_onehot_y add_softmax add_sigmoid average None]
  by auto

theorem unsupported_average_rank2_witness:
  "Some ''median'' \<notin> {None, Some ''micro'', Some ''macro'', Some ''weighted''} \<and>
   compute_roc_auc (\<lambda>t n. Inl TypeError)
     (Tensor2 2 [[0.9, 0.1], [0.2, 0.8], [0.6, 0.7], [0.3, 0.9]])
     (Tensor2 2 [[1, 0], [0, 1], [1, 1], [1, 0]]) False False False None
     = Inr (PerClass [1, 1 / 2]) \<and>
   compute_roc_auc (\<lambda>t n. Inl TypeError)
     (Tensor2 2 [[0.9, 0.1], [0.2, 0.8], [0.6, 0.7], [0.3, 0.9]])
     (Tensor2 2 [[1, 0], [0, 1], [1, 1], [1, 0]]) False False False (Some ''median'')
     = Inl (ValueError ''unsupported average method.'') \<and>
   classes_defined 2 [[1, 0], [0, 1], [1, 1], [1, 0]] \<and>
   compute_roc_auc (\<lambda>t n. Inl TypeError) (Tensor1 [0.1, 0.4, 0.35, 0.8]) (Tensor1 [0, 0, 1, 1])
     False False False (Some ''median'')
     = compute_roc_auc (\<lambda>t n. Inl TypeError) (Tensor1 [0.1, 0.4, 0.35, 0.8]) (Tensor1 [0, 0, 1, 1])
     False False False None"
proof -
  let ?P = "[[0.9, 0.1], [0.2, 0.8], [0.6, 0.7], [0.3, 0.9 :: real]]"
  let ?Y = "[[1, 0], [0, 1], [1, 1], [1, 0 :: real]]"
  let ?oh = "\<lambda>(t :: tensor) (n :: nat). Inl TypeError :: error + nat \<times> real list list"
  have a: "Some ''median'' \<notin> {None, Some ''micro'', Some ''macro'', Some ''weighted''}" by simp
  have l: "labels_seen ?oh (Tensor2 2 ?Y) False 2 = Inr (Tensor2 2 ?Y)"
    by (simp add: labels_seen_def)
  have n: "compute_roc_auc ?oh (Tensor2 2 ?P) (Tensor2 2 ?Y) False False False None
     = Inr (PerClass [1, 1 / 2])"
    by (simp add: compute_roc_auc_def aggregate_def transpose01_def calculate_def getitem_def
        compare_def Let_def upt_conv_Cons)
  note t = unsupported_average_rank2 [OF a, of 2 ?oh ?P "Tensor2 2 ?Y" False False False ?Y]
  have "compute_roc_auc ?oh (Tensor2 2 ?P) (Tensor2 2 ?Y) False False False (Some ''median'') =
     (case compute_roc_auc ?oh (Tensor2 2 ?P) (Tensor2 2 ?Y) False False False None of
        Inl e \<Rightarrow> Inl e
      | Inr r \<Rightarrow> Inl (ValueError ''unsupported average method.''))"
    by (rule t [THEN conjunct1, rule_format]) simp
  then have 1: "compute_roc_auc ?oh (Tensor2 2 ?P) (Tensor2 2 ?Y) False False False (Some ''median'')
     = Inl (ValueError ''unsupported average method.'')"
    unfolding n by simp
  have 2: "compute_roc_auc ?oh (Tensor2 2 ?P) (Tensor2 2 ?Y) False False False (Some ''median'')
     = Inl (ValueError ''unsupported average method.'')"
    by (rule t [THEN conjunct2, THEN conjunct1, rule_format])
       (simp add: l example_classes_defined)
  have 3: "compute_roc_auc ?oh (Tensor1 [0.1, 0.4, 0.35, 0.8]) (Tensor1 [0, 0, 1, 1])
     False False False (Some ''median'')
     = compute_roc_auc ?oh (Tensor1 [0.1, 0.4, 0.35, 0.8]) (Tensor1 [0, 0, 1, 1])
     False False False None"
    by (rule unsupported_average_rank2 [OF a, THEN conjunct2, THEN conjunct2, THEN conjunct1])
  show ?thesis using a n 1 2 3 example_classes_defined by blast
qed

text \<open>
  Claim C4, as stated, fails: the \<^verbatim>\<open>ValueError\<close> of line 113 is raised after line 105
  has computed the value of every class. On four samples and two classes, seven
  comparisons are made before the call fails.
\<close>

theorem unsupported_average_after_comparisons_counterexample:
  "compute_roc_auc (\<lambda>t n. Inl TypeError)
     (Tensor2 2 [[0.9, 0.1], [0.2, 0.8], [0.6, 0.7], [0.3, 0.9]])
     (Tensor2 2 [[1, 0], [0, 1], [1, 1], [1, 0]]) False False False (Some ''median'')
     = Inl (ValueError ''unsupported average method.'') \<and>
   compute_roc_auc_count (\<lambda>t n. Inl TypeError)
     (Tensor2 2 [[0.9, 0.1], [0.2, 0.8], [0.6, 0.7], [0.3, 0.9]])
     (Tensor2 2 [[1, 0], [0, 1], [1, 1], [1, 0]]) False False False (Some ''median'') = 7"
  by (simp add: compute_roc_auc_def compute_roc_auc_count_def aggregate_def transpose01_def
      calculate_def calculate_count_def getitem_def compare_def Let_def upt_conv_Cons)

text \<open>
  Claim C4, amended. A call that fails with the error of line 68, 73 or 75 (both
  transforms, or a rank that is neither 1 nor 2) has made no comparison. A call that fails
  with the invalid-label error of line 25 has made no comparison when its scores are of
  rank 1 after the squeeze or when \<^verbatim>\<open>average\<close> is \<^verbatim>\<open>'micro'\<close>; and each call of
  \<^verbatim>\<open>_calculate\<close> that fails with that error has made no comparison of its own.
\<close>

theorem early_errors_before_comparisons:
  "(compute_roc_auc one_hot y_pred y to_onehot_y add_softmax add_sigmoid average = Inl (ValueError m) \<and>
    (m = ''add_softmax=True and add_sigmoid=True are not compatible.'' \<or>
     m = ''predictions should be of shape (batch_size, n_classes) or (batch_size, ).'' \<or>
     m = ''targets should be of shape (batch_size, n_classes) or (batch_size, ).'') \<longrightarrow>
      compute_roc_auc_count one_hot y_pred y to_onehot_y add_softmax add_sigmoid average = 0) \<and>
   (compute_roc_auc one_hot y_pred y to_onehot_y add_softmax add_sigmoid average =
      Inl (ValueError ''labels should be binary values.'') \<and>
    (ndimension (squeeze_channel y_pred) = 1 \<or> average = Some ''micro'') \<longrightarrow>
      compute_roc_auc_count one_hot y_pred y to_onehot_y add_softmax add_sigmoid average = 0) \<and>
   (calculate labels scores = Inl (ValueError ''labels should be binary values.'') \<longrightarrow>
      calculate_count labels scores = 0)"
proof (intro conjI impI)
  assume a: "compute_roc_auc one_hot y_pred y to_onehot_y add_softmax add_sigmoid average = Inl (ValueError m) \<and>
    (m = ''add_softmax=True and add_sigmoid=True are not compatible.'' \<or>
     m = ''predictions should be of shape (batch_size, n_classes) or (batch_size, ).'' \<or>
     m = ''targets should be of shape (batch_size, n_classes) or (batch_size, ).'')"
  then have "m \<noteq> ''labels should be binary values.'' \<and> m \<noteq> ''unsupported average method.''"
    by (elim conjE disjE) simp_all
  then show "compute_roc_auc_count one_hot y_pred y to_onehot_y add_softmax add_sigmoid average = 0"
    by (intro ValueError_count [OF conjunct1 [OF a]]) simp
next
  assume a: "compute_roc_auc one_hot y_pred y to_onehot_y add_softmax add_sigmoid average =
      Inl (ValueError ''labels should be binary values.'') \<and>
    (ndimension (squeeze_channel y_pred) = 1 \<or> average = Some ''micro'')"
  show "compute_roc_auc_count one_hot y_pred y to_onehot_y add_softmax add_sigmoid average = 0"
    using conjunct2 [OF a] by (intro ValueError_count [OF conjunct1 [OF a]]) simp
next
  assume "calculate labels scores = Inl (ValueError ''labels should be binary values.'')"
  then show "calculate_count labels scores = 0"
    by (rule conjunct2 [OF calculate_ValueError])
qed

theorem early_errors_before_comparisons_witness:
  "compute_roc_auc (\<lambda>t n. Inl TypeError) (Tensor1 [0.3, 0.2, 0.1]) (Tensor1 [1, 0, 0])
     False True True (Some ''macro'')
     = Inl (ValueError ''add_softmax=True and add_sigmoid=True are not compatible.'') \<and>
   compute_roc_auc_count (\<lambda>t n. Inl TypeError) (Tensor1 [0.3, 0.2, 0.1]) (Tensor1 [1, 0, 0])
     False True True (Some ''macro'') = 0 \<and>
   compute_roc_auc (\<lambda>t n. Inl TypeError) (Tensor1 [0.3, 0.2, 0.1]) (Tensor1 [1, 0, 2])
     False False False (Some ''macro'')
     = Inl (ValueError ''labels should be binary values.'') \<and>
   ndimension (squeeze_channel (Tensor1 [0.3, 0.2, 0.1])) = 1 \<and>
   compute_roc_auc_count (\<lambda>t n. Inl TypeError) (Tensor1 [0.3, 0.2, 0.1]) (Tensor1 [1, 0, 2])
     False False False (Some ''macro'') = 0 \<and>
   calculate [1, 0, 2] [0.3, 0.2, 0.1] = Inl (ValueError ''labels should be binary values.'') \<and>
   calculate_count [1, 0, 2] [0.3, 0.2, 0.1] = 0"
proof -
  let ?oh = "\<lambda>(t :: tensor) (n :: nat). Inl TypeError :: error + nat \<times> real list list"
  have e: "compute_roc_auc ?oh (Tensor1 [0.3, 0.2, 0.1]) (Tensor1 [1, 0, 0])
     False True True (Some ''macro'')
     = Inl (ValueError ''add_softmax=True and add_sigmoid=True are not compatible.'')"
    by (simp add: compute_roc_auc_def)
  have c: "calculate [1, 0, 2] [0.3, 0.2, 0.1] = Inl (ValueError ''labels should be binary values.'')"
    by (simp add: calculate_def)
  have b: "compute_roc_auc ?oh (Tensor1 [0.3, 0.2, 0.1]) (Tensor1 [1, 0, 2])
     False False False (Some ''macro'') = Inl (ValueError ''labels should be binary values.'')"
    using c by (simp add: compute_roc_auc_def)
  have r: "ndimension (squeeze_channel (Tensor1 [0.3, 0.2, 0.1])) = 1" by simp
  note t = early_errors_before_comparisons [of ?oh "Tensor1 [0.3, 0.2, 0.1]" "Tensor1 [1, 0, 0]" False True True "Some ''macro''"
      "''add_softmax=True and add_sigmoid=True are not compatible.''" "[1, 0, 2]" "[0.3, 0.2, 0.1]"]
  note u = early_errors_before_comparisons [of ?oh "Tensor1 [0.3, 0.2, 0.1]" "Tensor1 [1, 0, 2]" False False False "Some ''macro''"]
  have 1: "compute_roc_auc_count ?oh (Tensor1 [0.3, 0.2, 0.1]) (Tensor1 [1, 0, 0])
     False True True (Some ''macro'') = 0"
    by (rule t [THEN conjunct1, rule_format]) (use e in simp)
  have 2: "compute_roc_auc_count ?oh (Tensor1 [0.3, 0.2, 0.1]) (Tensor1 [1, 0, 2])
     False False False (Some ''macro'') = 0"
    by (rule u [THEN conjunct2, THEN conjunct1, rule_format]) (use b in simp)
  have 3: "calculate_count [1, 0, 2] [0.3, 0.2, 0.1] = 0"
    by (rule t [THEN conjunct2, THEN conjunct2, rule_format]) (rule c)
  show ?thesis using e b r c 1 2 3 by blast
qed

end
